theory Spec2Isabelle
  imports Complex_Main "HOL-Library.AList" "HOL-Library.Monad_Syntax"
begin

section \<open>Data model\<close>

text \<open>
  A record of the log is one JSON object. The aggregators read four keys of it, each through
  \<^verbatim>\<open>s.get(key)\<close> or \<^verbatim>\<open>key in s\<close>, so a record is modelled by these four optional fields;
  \<open>None\<close> is an absent key. Actions, session ids and agent types are strings. Costs are JSON
  numbers; Python's \<^verbatim>\<open>int\<close> and \<^verbatim>\<open>float\<close> are both read as real numbers, and arithmetic on
  them is exact. Values of other JSON types under these keys are outside the model.
\<close>

record session =
  action :: "string option"
  session_id :: "string option"
  agent_type :: "string option"
  cost_usd :: "real option"

text \<open>
  The advisory strings of \<^verbatim>\<open>generate_recommendations\<close>, one constructor per message, carrying
  the values that the f-string formats into the message.
\<close>

datatype recommendation =
    LowSuccessRate
  | HighSuccessRate
  | HighAvgCost real
  | HighResumeCount real
  | MostCommonType string real
  | LimitedHistory

text \<open>
  Values of the result mappings: numbers, strings, nested dictionaries (association lists in
  insertion order) and the list of recommendations.
\<close>

datatype pyval =
    Num real
  | Str string
  | Dict "(string \<times> pyval) list"
  | Msgs "recommendation list"

type_synonym pydict = "(string \<times> pyval) list"

section \<open>Library functions used by the scripts\<close>

text \<open>
  \<^verbatim>\<open>round(x, nd)\<close>: rounding to \<open>nd\<close> decimal places, ties to the even neighbour.
\<close>

definition round_half_even :: "real \<Rightarrow> int" where
  "round_half_even y =
     (let f = \<lfloor>y\<rfloor>; d = y - of_int f
      in if d < 1 / 2 then f
         else if 1 / 2 < d then f + 1
         else if even f then f else f + 1)"

definition py_round :: "nat \<Rightarrow> real \<Rightarrow> real" where
  "py_round nd x = of_int (round_half_even (x * 10 ^ nd)) / 10 ^ nd"

text \<open>
  \<^verbatim>\<open>statistics.mean\<close>, \<^verbatim>\<open>median\<close> and \<^verbatim>\<open>stdev\<close>, and the builtins \<^verbatim>\<open>min\<close> and \<^verbatim>\<open>max\<close> on a list.
  Python raises on an empty list (\<^verbatim>\<open>stdev\<close> on fewer than two values); the scripts call them only
  behind \<^verbatim>\<open>if costs\<close> and \<^verbatim>\<open>len(costs) > 1\<close>, and these guards are part of the definitions
  that use them below.
\<close>

definition mean :: "real list \<Rightarrow> real" where
  "mean xs = sum_list xs / real (length xs)"

definition median :: "real list \<Rightarrow> real" where
  "median xs =
     (let data = sort xs; n = length data
      in if n mod 2 = 1 then data ! (n div 2)
         else (data ! (n div 2 - 1) + data ! (n div 2)) / 2)"

definition variance :: "real list \<Rightarrow> real" where
  "variance xs =
     (let m = mean xs in sum_list (map (\<lambda>x. (x - m)\<^sup>2) xs) / real (length xs - 1))"

definition stdev :: "real list \<Rightarrow> real" where
  "stdev xs = sqrt (variance xs)"

fun py_min :: "real list \<Rightarrow> real" where
  "py_min (x # xs) = fold min xs x"

fun py_max :: "real list \<Rightarrow> real" where
  "py_max (x # xs) = fold max xs x"

text \<open>
  Reading a result mapping: \<^verbatim>\<open>d[k]\<close> (\<open>None\<close> is \<^verbatim>\<open>KeyError\<close>), \<^verbatim>\<open>d.get(k, default)\<close>, and the
  use of a value as a number in a comparison (\<open>None\<close> is \<^verbatim>\<open>TypeError\<close>).
\<close>

definition getitem :: "pydict \<Rightarrow> string \<Rightarrow> pyval option" where
  "getitem d k = map_of d k"

definition get_or :: "pydict \<Rightarrow> string \<Rightarrow> pyval \<Rightarrow> pyval" where
  "get_or d k dflt = (case map_of d k of Some v \<Rightarrow> v | None \<Rightarrow> dflt)"

fun number :: "pyval \<Rightarrow> real option" where
  "number (Num x) = Some x"
| "number _ = None"

section \<open>Record loader\<close>

text \<open>
  A line of the file is represented by what \<^verbatim>\<open>line.strip()\<close> and \<^verbatim>\<open>json.loads(line)\<close> make of
  it: \<open>Blank\<close> when the stripped line is empty, \<open>Entry s\<close> when it decodes to the record \<open>s\<close>,
  \<open>Malformed\<close> when \<^verbatim>\<open>json.loads\<close> raises \<^verbatim>\<open>JSONDecodeError\<close>. A file is \<open>None\<close> when opening it raises
  \<^verbatim>\<open>FileNotFoundError\<close>. Lines that decode to a JSON value other than an object are outside the
  model.
\<close>

datatype line = Blank | Entry session | Malformed

datatype diagnostic = MalformedWarning | MalformedError

text \<open>
  The \<^verbatim>\<open>for line in f\<close> loop. It appends to the list it is given and returns the list together
  with a flag telling whether \<^verbatim>\<open>JSONDecodeError\<close> left the loop.
\<close>

fun read_lines :: "line list \<Rightarrow> session list \<Rightarrow> session list \<times> bool" where
  "read_lines [] sessions = (sessions, False)"
| "read_lines (Blank # ls) sessions = read_lines ls sessions"
| "read_lines (Entry s # ls) sessions = read_lines ls (sessions @ [s])"
| "read_lines (Malformed # ls) sessions = (sessions, True)"

text \<open>
  \<^verbatim>\<open>ExperienceAnalyzer.load_sessions\<close>: the handler of \<^verbatim>\<open>JSONDecodeError\<close> encloses the
  whole loop, prints a warning and leaves \<^verbatim>\<open>self.sessions\<close> as the loop left it. The result is
  \<^verbatim>\<open>self.sessions\<close> and what was printed on stderr.
\<close>

definition load_sessions :: "line list option \<Rightarrow> session list \<times> diagnostic list" where
  "load_sessions file =
     (case file of
        None \<Rightarrow> ([], [])
      | Some ls \<Rightarrow>
          (case read_lines ls [] of
             (sessions, raised) \<Rightarrow> (sessions, if raised then [MalformedWarning] else [])))"

text \<open>\<^verbatim>\<open>load_sessions\<close> of basic_stats.py: the handler prints an error and returns \<^verbatim>\<open>[]\<close>.\<close>

definition bs_load_sessions :: "line list option \<Rightarrow> session list \<times> diagnostic list" where
  "bs_load_sessions file =
     (case file of
        None \<Rightarrow> ([], [])
      | Some ls \<Rightarrow>
          (case read_lines ls [] of
             (sessions, raised) \<Rightarrow> if raised then ([], [MalformedError]) else (sessions, [])))"

text \<open>The records of the well-formed lines of a file, in file order.\<close>

definition entries :: "line list \<Rightarrow> session list" where
  "entries ls = concat (map (\<lambda>l. case l of Entry s \<Rightarrow> [s] | _ \<Rightarrow> []) ls)"

section \<open>Summary aggregator\<close>

definition has_cost :: "session \<Rightarrow> bool" where
  "has_cost s = (cost_usd s \<noteq> None)"

text \<open>\<^verbatim>\<open>s.get('cost_usd', d)\<close>\<close>

definition get_cost :: "session \<Rightarrow> real \<Rightarrow> real" where
  "get_cost s d = (case cost_usd s of Some c \<Rightarrow> c | None \<Rightarrow> d)"

definition get_summary :: "session list \<Rightarrow> pydict" where
  "get_summary sessions =
     (let executions = filter (\<lambda>s. action s = Some ''execute'') sessions;
          completed = filter (\<lambda>s. action s = Some ''complete'') sessions;
          failed = filter (\<lambda>s. action s = Some ''failed'') sessions;
          total_cost = sum_list (map (\<lambda>s. get_cost s 0) (filter has_cost sessions))
      in [(''total_executions'', Num (real (length executions))),
          (''completed'', Num (real (length completed))),
          (''failed'', Num (real (length failed))),
          (''success_rate'',
             Num (if executions \<noteq> [] then real (length completed) / real (length executions)
                  else 0)),
          (''total_cost_usd'', Num (py_round 2 total_cost)),
          (''avg_cost_per_agent'',
             Num (if completed \<noteq> [] then py_round 2 (total_cost / real (length completed))
                  else 0))])"

definition bs_get_summary :: "session list \<Rightarrow> pydict" where
  "bs_get_summary sessions =
     (let executions = filter (\<lambda>s. action s = Some ''execute'') sessions;
          completed = filter (\<lambda>s. action s = Some ''complete'') sessions;
          failed = filter (\<lambda>s. action s = Some ''failed'') sessions;
          total_cost = sum_list (map (\<lambda>s. get_cost s 0) (filter has_cost sessions))
      in [(''total_sessions'', Num (real (length sessions))),
          (''total_executions'', Num (real (length executions))),
          (''completed'', Num (real (length completed))),
          (''failed'', Num (real (length failed))),
          (''success_rate'',
             Num (if executions \<noteq> []
                  then py_round 2 (real (length completed) / real (length executions))
                  else 0)),
          (''total_cost_usd'', Num (py_round 2 total_cost)),
          (''avg_cost_per_agent'',
             Num (if completed \<noteq> [] then py_round 2 (total_cost / real (length completed))
                  else 0))])"

section \<open>By-agent-type aggregator\<close>

text \<open>
  One entry of \<^verbatim>\<open>type_data\<close>, the \<^verbatim>\<open>defaultdict\<close> whose factory builds
  \<^verbatim>\<open>{"count": 0, "costs": [], "success": 0, "failed": 0}\<close>.
\<close>

record type_data =
  td_count :: nat
  td_costs :: "real list"
  td_success :: nat
  td_failed :: nat

definition td_default :: type_data where
  "td_default = \<lparr>td_count = 0, td_costs = [], td_success = 0, td_failed = 0\<rparr>"

text \<open>\<^verbatim>\<open>type_data[k]\<close> on the \<^verbatim>\<open>defaultdict\<close>: a missing key reads as the default entry.\<close>

definition td_get :: "(string \<times> type_data) list \<Rightarrow> string \<Rightarrow> type_data" where
  "td_get tds k = (case map_of tds k of Some d \<Rightarrow> d | None \<Rightarrow> td_default)"

text \<open>\<^verbatim>\<open>session.get('agent_type', 'unknown')\<close>\<close>

definition type_key :: "session \<Rightarrow> string" where
  "type_key s = (case agent_type s of Some t \<Rightarrow> t | None \<Rightarrow> ''unknown'')"

text \<open>The body of the first loop of \<^verbatim>\<open>analyze_agent_types\<close>.\<close>

definition type_data_step :: "(string \<times> type_data) list \<Rightarrow> session \<Rightarrow> (string \<times> type_data) list" where
  "type_data_step tds s =
     (let t = type_key s; d = td_get tds t
      in if action s = Some ''execute'' then
           (let d1 = d\<lparr>td_count := td_count d + 1\<rparr>
            in case cost_usd s of
                 Some c \<Rightarrow> AList.update t (d1\<lparr>td_costs := td_costs d1 @ [c]\<rparr>) tds
               | None \<Rightarrow> AList.update t d1 tds)
         else if action s = Some ''complete'' then
           AList.update t (d\<lparr>td_success := td_success d + 1\<rparr>) tds
         else if action s = Some ''failed'' then
           AList.update t (d\<lparr>td_failed := td_failed d + 1\<rparr>) tds
         else tds)"

definition collect_type_data :: "session list \<Rightarrow> (string \<times> type_data) list" where
  "collect_type_data sessions = foldl type_data_step [] sessions"

text \<open>The statistics of one agent type; \<open>rate\<close> is what the script does to the success rate.\<close>

definition agent_type_stats :: "(real \<Rightarrow> real) \<Rightarrow> type_data \<Rightarrow> pydict" where
  "agent_type_stats rate d =
     (let costs = td_costs d
      in [(''count'', Num (real (td_count d))),
          (''success'', Num (real (td_success d))),
          (''failed'', Num (real (td_failed d))),
          (''success_rate'',
             Num (if td_count d > 0 then rate (real (td_success d) / real (td_count d)) else 0)),
          (''avg_cost'', Num (if costs \<noteq> [] then py_round 2 (mean costs) else 0)),
          (''min_cost'', Num (if costs \<noteq> [] then py_round 2 (py_min costs) else 0)),
          (''max_cost'', Num (if costs \<noteq> [] then py_round 2 (py_max costs) else 0)),
          (''median_cost'',
             Num (if costs \<noteq> [] \<and> length costs > 1 then py_round 2 (median costs)
                  else (case costs of c0 # _ \<Rightarrow> c0 | [] \<Rightarrow> 0)))])"

text \<open>The second loop: \<^verbatim>\<open>result[agent_type] = {...}\<close> for every entry with a positive count.\<close>

definition type_result_step :: "(real \<Rightarrow> real) \<Rightarrow> pydict \<Rightarrow> string \<times> type_data \<Rightarrow> pydict" where
  "type_result_step rate result e =
     (case e of (t, d) \<Rightarrow>
        if td_count d > 0 then AList.update t (Dict (agent_type_stats rate d)) result
        else result)"

definition analyze_agent_types :: "session list \<Rightarrow> pydict" where
  "analyze_agent_types sessions =
     foldl (type_result_step (\<lambda>r. r)) [] (collect_type_data sessions)"

definition bs_analyze_agent_types :: "session list \<Rightarrow> pydict" where
  "bs_analyze_agent_types sessions =
     foldl (type_result_step (py_round 2)) [] (collect_type_data sessions)"

section \<open>Cost distribution aggregator\<close>

text \<open>\<^verbatim>\<open>session.get('action', 'unknown')\<close>\<close>

definition action_key :: "session \<Rightarrow> string" where
  "action_key s = (case action s of Some a \<Rightarrow> a | None \<Rightarrow> ''unknown'')"

text \<open>\<^verbatim>\<open>costs_by_action[k]\<close> on the \<^verbatim>\<open>defaultdict(list)\<close>.\<close>

definition costs_get :: "(string \<times> real list) list \<Rightarrow> string \<Rightarrow> real list" where
  "costs_get cba k = (case map_of cba k of Some cs \<Rightarrow> cs | None \<Rightarrow> [])"

definition costs_step :: "(string \<times> real list) list \<Rightarrow> session \<Rightarrow> (string \<times> real list) list" where
  "costs_step cba s =
     (case cost_usd s of
        Some c \<Rightarrow> (let a = action_key s in AList.update a (costs_get cba a @ [c]) cba)
      | None \<Rightarrow> cba)"

definition costs_by_action :: "session list \<Rightarrow> (string \<times> real list) list" where
  "costs_by_action sessions = foldl costs_step [] sessions"

definition action_stats :: "real list \<Rightarrow> pydict" where
  "action_stats costs =
     [(''count'', Num (real (length costs))),
      (''total'', Num (py_round 2 (sum_list costs))),
      (''avg'', Num (py_round 2 (mean costs))),
      (''min'', Num (py_round 2 (py_min costs))),
      (''max'', Num (py_round 2 (py_max costs))),
      (''median'', Num (if length costs > 1 then py_round 2 (median costs) else costs ! 0)),
      (''stdev'', Num (if length costs > 1 then py_round 2 (stdev costs) else 0))]"

definition cost_result_step :: "pydict \<Rightarrow> string \<times> real list \<Rightarrow> pydict" where
  "cost_result_step result e =
     (case e of (a, costs) \<Rightarrow>
        if costs \<noteq> [] then AList.update a (Dict (action_stats costs)) result else result)"

definition cost_categories :: "real list \<Rightarrow> pydict" where
  "cost_categories all_costs =
     [(''simple'', Dict [(''range'', Str ''$0.05-$0.15''),
         (''count'', Num (real (length (filter (\<lambda>c. c \<le> 0.15) all_costs))))]),
      (''medium'', Dict [(''range'', Str ''$0.15-$0.40''),
         (''count'', Num (real (length (filter (\<lambda>c. 0.15 < c \<and> c \<le> 0.40) all_costs))))]),
      (''complex'', Dict [(''range'', Str ''$0.40+''),
         (''count'', Num (real (length (filter (\<lambda>c. c > 0.40) all_costs))))])]"

definition execute_costs :: "session list \<Rightarrow> real list" where
  "execute_costs sessions =
     map (\<lambda>s. get_cost s 0) (filter (\<lambda>s. has_cost s \<and> action s = Some ''execute'') sessions)"

definition analyze_costs :: "session list \<Rightarrow> pydict" where
  "analyze_costs sessions =
     (let result = foldl cost_result_step [] (costs_by_action sessions);
          all_costs = execute_costs sessions
      in if all_costs \<noteq> [] then AList.update ''categories'' (Dict (cost_categories all_costs)) result
         else result)"

text \<open>\<^verbatim>\<open>analyze_costs\<close> of basic_stats.py, translated from its own text.\<close>

definition bs_costs_step :: "(string \<times> real list) list \<Rightarrow> session \<Rightarrow> (string \<times> real list) list" where
  "bs_costs_step cba s =
     (case cost_usd s of
        Some c \<Rightarrow> (let a = action_key s in AList.update a (costs_get cba a @ [c]) cba)
      | None \<Rightarrow> cba)"

definition bs_action_stats :: "real list \<Rightarrow> pydict" where
  "bs_action_stats costs =
     [(''count'', Num (real (length costs))),
      (''total'', Num (py_round 2 (sum_list costs))),
      (''avg'', Num (py_round 2 (mean costs))),
      (''min'', Num (py_round 2 (py_min costs))),
      (''max'', Num (py_round 2 (py_max costs))),
      (''median'', Num (if length costs > 1 then py_round 2 (median costs) else costs ! 0)),
      (''stdev'', Num (if length costs > 1 then py_round 2 (stdev costs) else 0))]"

definition bs_cost_result_step :: "pydict \<Rightarrow> string \<times> real list \<Rightarrow> pydict" where
  "bs_cost_result_step result e =
     (case e of (a, costs) \<Rightarrow>
        if costs \<noteq> [] then AList.update a (Dict (bs_action_stats costs)) result else result)"

definition bs_cost_categories :: "real list \<Rightarrow> pydict" where
  "bs_cost_categories all_costs =
     [(''simple'', Dict [(''range'', Str ''$0.05-$0.15''),
         (''count'', Num (real (length (filter (\<lambda>c. c \<le> 0.15) all_costs))))]),
      (''medium'', Dict [(''range'', Str ''$0.15-$0.40''),
         (''count'', Num (real (length (filter (\<lambda>c. 0.15 < c \<and> c \<le> 0.40) all_costs))))]),
      (''complex'', Dict [(''range'', Str ''$0.40+''),
         (''count'', Num (real (length (filter (\<lambda>c. c > 0.40) all_costs))))])]"

definition bs_analyze_costs :: "session list \<Rightarrow> pydict" where
  "bs_analyze_costs sessions =
     (let result = foldl bs_cost_result_step [] (foldl bs_costs_step [] sessions);
          all_costs =
            map (\<lambda>s. get_cost s 0)
              (filter (\<lambda>s. has_cost s \<and> action s = Some ''execute'') sessions)
      in if all_costs \<noteq> []
         then AList.update ''categories'' (Dict (bs_cost_categories all_costs)) result
         else result)"

section \<open>Success analysis\<close>

text \<open>\<^verbatim>\<open>if sid:\<close> on \<^verbatim>\<open>sid = session.get('session_id')\<close>: an absent id and the empty string are false.\<close>

definition truthy :: "string option \<Rightarrow> bool" where
  "truthy sid = (sid \<noteq> None \<and> sid \<noteq> Some [])"

definition outcome_step :: "string \<Rightarrow> (string \<times> string) list \<Rightarrow> session \<Rightarrow> (string \<times> string) list" where
  "outcome_step outcome session_outcomes s =
     (case session_id s of
        Some sid \<Rightarrow> if truthy (Some sid) then AList.update sid outcome session_outcomes
                    else session_outcomes
      | None \<Rightarrow> session_outcomes)"

text \<open>
  The mapping \<^verbatim>\<open>session_outcomes\<close> of \<^verbatim>\<open>analyze_success\<close> after its two loops: first over the
  \<^verbatim>\<open>complete\<close> records, then over the \<^verbatim>\<open>failed\<close> records.
\<close>

definition session_outcomes :: "session list \<Rightarrow> (string \<times> string) list" where
  "session_outcomes sessions =
     (let successes = filter (\<lambda>s. action s = Some ''complete'') sessions;
          failures = filter (\<lambda>s. action s = Some ''failed'') sessions
      in foldl (outcome_step ''failed'') (foldl (outcome_step ''success'') [] successes) failures)"

definition analyze_success :: "session list \<Rightarrow> pydict" where
  "analyze_success sessions =
     (let outcomes = session_outcomes sessions;
          success_count = length (filter (\<lambda>v. v = ''success'') (map snd outcomes));
          failure_count = length (filter (\<lambda>v. v = ''failed'') (map snd outcomes));
          total = length outcomes
      in [(''total_attempts'', Num (real total)),
          (''successful'', Num (real success_count)),
          (''failed'', Num (real failure_count)),
          (''success_rate'',
             Num (if total > 0 then py_round 2 (real success_count / real total) else 0)),
          (''failure_rate'',
             Num (if total > 0 then py_round 2 (real failure_count / real total) else 0))])"

section \<open>Tool patterns\<close>

definition analyze_tool_patterns :: pydict where
  "analyze_tool_patterns =
     [(''note'', Str ''Tool pattern analysis requires agent config inspection''),
      (''suggestion'', Str ''Log tool lists in sessions.jsonl for automatic analysis'')]"

section \<open>Resume pattern aggregator\<close>

text \<open>\<^verbatim>\<open>session_resumes[sid]\<close> on the \<^verbatim>\<open>Counter\<close>: a missing key counts 0.\<close>

definition counter_get :: "(string \<times> nat) list \<Rightarrow> string \<Rightarrow> nat" where
  "counter_get cnt k = (case map_of cnt k of Some n \<Rightarrow> n | None \<Rightarrow> 0)"

definition resume_step :: "(string \<times> nat) list \<Rightarrow> session \<Rightarrow> (string \<times> nat) list" where
  "resume_step cnt s =
     (case session_id s of
        Some sid \<Rightarrow> if truthy (Some sid) then AList.update sid (counter_get cnt sid + 1) cnt
                    else cnt
      | None \<Rightarrow> cnt)"

definition session_resumes :: "session list \<Rightarrow> (string \<times> nat) list" where
  "session_resumes sessions =
     foldl resume_step [] (filter (\<lambda>s. action s = Some ''resume'') sessions)"

definition analyze_resumes :: "session list \<Rightarrow> pydict" where
  "analyze_resumes sessions =
     (let counter = session_resumes sessions
      in if counter = [] then
           [(''total_resumes'', Num 0),
            (''sessions_with_resumes'', Num 0),
            (''avg_resumes_per_session'', Num 0)]
         else
           (let resume_counts = map snd counter
            in [(''total_resumes'', Num (real (sum_list resume_counts))),
                (''sessions_with_resumes'', Num (real (length counter))),
                (''avg_resumes_per_session'', Num (py_round 1 (mean (map real resume_counts)))),
                (''max_resumes'', Num (py_max (map real resume_counts))),
                (''distribution'', Dict
                   [(''0_resumes'',
                       Num (of_int
                         (int (length (filter (\<lambda>s. action s = Some ''complete'') sessions))
                          - int (length counter)))),
                    (''1_resume'', Num (real (length (filter (\<lambda>c. c = 1) resume_counts)))),
                    (''2+_resumes'', Num (real (length (filter (\<lambda>c. c \<ge> 2) resume_counts))))])]))"

section \<open>Recommendation engine\<close>

text \<open>\<^verbatim>\<open>x[1]["count"]\<close>, the key of \<^verbatim>\<open>max(agent_types.items(), key=...)\<close>.\<close>

fun count_of :: "string \<times> pyval \<Rightarrow> real option" where
  "count_of (t, Dict d) = Option.bind (getitem d ''count'') number"
| "count_of (t, _) = None"

text \<open>
  \<^verbatim>\<open>max(items, key=...)\<close> keeps the first item whose key is greatest: a later item replaces the
  best one only when its key is strictly greater.
\<close>

fun max_from :: "string \<times> pyval \<Rightarrow> real \<Rightarrow> (string \<times> pyval) list \<Rightarrow> ((string \<times> pyval) \<times> real) option" where
  "max_from best bk [] = Some (best, bk)"
| "max_from best bk (x # xs) =
     (case count_of x of
        None \<Rightarrow> None
      | Some k \<Rightarrow> if k > bk then max_from x k xs else max_from best bk xs)"

definition max_by_count :: "(string \<times> pyval) list \<Rightarrow> ((string \<times> pyval) \<times> real) option" where
  "max_by_count items =
     (case items of
        [] \<Rightarrow> None
      | x # xs \<Rightarrow> (case count_of x of None \<Rightarrow> None | Some k \<Rightarrow> max_from x k xs))"

text \<open>
  \<^verbatim>\<open>generate_recommendations\<close>. \<open>None\<close> stands for an exception raised while reading the
  aggregates.
\<close>

definition generate_recommendations :: "session list \<Rightarrow> recommendation list option" where
  "generate_recommendations sessions =
     do {
       let summary = get_summary sessions;
       success_rate \<leftarrow> Option.bind (getitem summary ''success_rate'') number;
       let r1 = (if success_rate < 0.70 then [LowSuccessRate]
                 else if success_rate \<ge> 0.85 then [HighSuccessRate]
                 else []);
       avg_cost \<leftarrow> number (get_or summary ''avg_cost_per_agent'' (Num 0));
       let r2 = r1 @ (if avg_cost > 0.50 then [HighAvgCost avg_cost] else []);
       let resume_patterns = analyze_resumes sessions;
       avg_resumes \<leftarrow> number (get_or resume_patterns ''avg_resumes_per_session'' (Num 0));
       let r3 = r2 @ (if avg_resumes > 2 then [HighResumeCount avg_resumes] else []);
       let agent_types = analyze_agent_types sessions;
       r4 \<leftarrow> (if length agent_types > 3
              then do {
                most_common \<leftarrow> max_by_count agent_types;
                Some (r3 @ [MostCommonType (fst (fst most_common)) (snd most_common)])
              }
              else Some r3);
       Some (r4 @ (if length sessions < 5 then [LimitedHistory] else []))
     }"

section \<open>Reports\<close>

text \<open>\<^verbatim>\<open>ExperienceAnalyzer.analyze_all\<close>\<close>

definition analyze_all :: "session list \<Rightarrow> pydict option" where
  "analyze_all sessions =
     (if sessions = [] then
        Some [(''status'', Str ''no_history''),
              (''message'', Str ''No session history found''),
              (''total_sessions'', Num 0)]
      else
        do {
          recommendations \<leftarrow> generate_recommendations sessions;
          Some [(''status'', Str ''analyzed''),
                (''total_sessions'', Num (real (length sessions))),
                (''summary'', Dict (get_summary sessions)),
                (''agent_types'', Dict (analyze_agent_types sessions)),
                (''cost_patterns'', Dict (analyze_costs sessions)),
                (''success_metrics'', Dict (analyze_success sessions)),
                (''tool_patterns'', Dict analyze_tool_patterns),
                (''resume_patterns'', Dict (analyze_resumes sessions)),
                (''recommendations'', Msgs recommendations)]
        })"

text \<open>
  \<^verbatim>\<open>main\<close> of analyze_experience.py with the default \<^verbatim>\<open>--format json\<close>: the document printed on
  stdout (\<open>None\<close> when an exception ends the run) and the diagnostics printed on stderr.
\<close>

definition main :: "line list option \<Rightarrow> pydict option \<times> diagnostic list" where
  "main file =
     (case load_sessions file of (sessions, diags) \<Rightarrow> (analyze_all sessions, diags))"

text \<open>\<^verbatim>\<open>main\<close> of basic_stats.py.\<close>

definition bs_main :: "line list option \<Rightarrow> pydict \<times> diagnostic list" where
  "bs_main file =
     (case bs_load_sessions file of (sessions, diags) \<Rightarrow>
        (if sessions = [] then
           [(''status'', Str ''no_history''),
            (''message'', Str ''No session history found''),
            (''summary'', Dict
               [(''total_sessions'', Num 0),
                (''total_executions'', Num 0),
                (''completed'', Num 0),
                (''failed'', Num 0),
                (''success_rate'', Num 0),
                (''total_cost_usd'', Num 0),
                (''avg_cost_per_agent'', Num 0)]),
            (''agent_types'', Dict []),
            (''cost_patterns'', Dict [])]
         else
           [(''status'', Str ''analyzed''),
            (''summary'', Dict (bs_get_summary sessions)),
            (''agent_types'', Dict (bs_analyze_agent_types sessions)),
            (''cost_patterns'', Dict (bs_analyze_costs sessions))],
         diags))"

section \<open>Vocabulary of the properties\<close>

text \<open>The number of records whose action is \<open>a\<close>.\<close>

definition count_action :: "string \<Rightarrow> session list \<Rightarrow> nat" where
  "count_action a rs = length (filter (\<lambda>s. action s = Some a) rs)"

text \<open>The \<^verbatim>\<open>cost_usd\<close> values of the records that have the field, in file order.\<close>

definition present_costs :: "session list \<Rightarrow> real list" where
  "present_costs rs = List.map_filter cost_usd rs"

text \<open>
  The cost list of an action: the \<^verbatim>\<open>cost_usd\<close> values of the records filed under the key
  \<open>a\<close>, in file order.
\<close>

definition costs_for :: "string \<Rightarrow> session list \<Rightarrow> real list" where
  "costs_for a rs = List.map_filter (\<lambda>s. if action_key s = a then cost_usd s else None) rs"

text \<open>The costs of the costed \<^verbatim>\<open>execute\<close> records, in file order.\<close>

definition costed_execute_costs :: "session list \<Rightarrow> real list" where
  "costed_execute_costs rs =
     List.map_filter (\<lambda>s. if action s = Some ''execute'' then cost_usd s else None) rs"

text \<open>The three cost categories.\<close>

definition is_simple :: "real \<Rightarrow> bool" where
  "is_simple c = (c \<le> 0.15)"

definition is_medium :: "real \<Rightarrow> bool" where
  "is_medium c = (0.15 < c \<and> c \<le> 0.40)"

definition is_complex :: "real \<Rightarrow> bool" where
  "is_complex c = (c > 0.40)"

text \<open>
  What a reader of the cost patterns finds at \<^verbatim>\<open>result["categories"][name]["count"]\<close>;
  \<open>None\<close> when one of the keys is missing.
\<close>

definition category_count :: "pydict \<Rightarrow> string \<Rightarrow> real option" where
  "category_count result name =
     (case getitem result ''categories'' of
        Some (Dict cats) \<Rightarrow>
          (case getitem cats name of
             Some (Dict block) \<Rightarrow> Option.bind (getitem block ''count'') number
           | _ \<Rightarrow> None)
      | _ \<Rightarrow> None)"

text \<open>
  The cost list of an agent type: the costs of its costed \<^verbatim>\<open>execute\<close> records; and the number
  of its records with a given action.
\<close>

definition type_costs :: "string \<Rightarrow> session list \<Rightarrow> real list" where
  "type_costs t rs =
     List.map_filter
       (\<lambda>s. if type_key s = t \<and> action s = Some ''execute'' then cost_usd s else None) rs"

definition count_type_action :: "string \<Rightarrow> string \<Rightarrow> session list \<Rightarrow> nat" where
  "count_type_action t a rs = length (filter (\<lambda>s. type_key s = t \<and> action s = Some a) rs)"

text \<open>Whether some record has the action \<open>a\<close> and the session id \<open>sid\<close>.\<close>

definition has_record :: "string \<Rightarrow> string \<Rightarrow> session list \<Rightarrow> bool" where
  "has_record a sid rs = (\<exists>s \<in> set rs. action s = Some a \<and> session_id s = Some sid)"

text \<open>
  The outcome that the specification assigns to a session: the action of the last record of the
  session, in file order, among those with action \<^verbatim>\<open>complete\<close> or \<^verbatim>\<open>failed\<close>, named as
  \<^verbatim>\<open>analyze_success\<close> names outcomes.
\<close>

definition last_terminal_outcome :: "string \<Rightarrow> session list \<Rightarrow> string option" where
  "last_terminal_outcome sid rs =
     (case rev (filter (\<lambda>s. session_id s = Some sid
                   \<and> (action s = Some ''complete'' \<or> action s = Some ''failed'')) rs) of
        [] \<Rightarrow> None
      | s # _ \<Rightarrow> Some (if action s = Some ''complete'' then ''success'' else ''failed''))"

text \<open>The distinct session ids that pass \<^verbatim>\<open>if sid:\<close> on some \<^verbatim>\<open>resume\<close> record.\<close>

definition resumed_sessions :: "session list \<Rightarrow> string set" where
  "resumed_sessions rs =
     set (List.map_filter
       (\<lambda>s. if action s = Some ''resume'' \<and> truthy (session_id s) then session_id s else None) rs)"

text \<open>What a reader of the printed document finds under a key; \<open>None\<close> when there is none.\<close>

definition report_field :: "pydict option \<Rightarrow> string \<Rightarrow> pyval option" where
  "report_field doc k = Option.bind doc (\<lambda>d. getitem d k)"

section \<open>Rounding\<close>

lemma round_half_even_ge: "of_int n \<le> y \<Longrightarrow> n \<le> round_half_even y"
proof -
  assume "of_int n \<le> y"
  then have "n \<le> \<lfloor>y\<rfloor>" by (simp add: le_floor_iff)
  then show ?thesis by (simp add: round_half_even_def Let_def)
qed

lemma round_half_even_le: "y \<le> of_int n \<Longrightarrow> round_half_even y \<le> n"
proof -
  assume y: "y \<le> of_int n"
  then have f: "\<lfloor>y\<rfloor> \<le> n" by (simp add: floor_le_iff)
  show ?thesis
  proof (cases "\<lfloor>y\<rfloor> = n")
    case True
    then have "y = of_int \<lfloor>y\<rfloor>" using y of_int_floor_le [of y] by simp
    then have "y - of_int \<lfloor>y\<rfloor> = 0" by simp
    then show ?thesis using True by (simp add: round_half_even_def Let_def)
  next
    case False
    then have "\<lfloor>y\<rfloor> + 1 \<le> n" using f by simp
    then show ?thesis using f by (simp add: round_half_even_def Let_def)
  qed
qed

lemma py_round_nonneg: "0 \<le> x \<Longrightarrow> 0 \<le> py_round nd x"
  using round_half_even_ge [of 0 "x * 10 ^ nd"] by (simp add: py_round_def)

lemma py_round_le_one: "x \<le> 1 \<Longrightarrow> py_round nd x \<le> 1"
proof -
  assume "x \<le> 1"
  then have "x * 10 ^ nd \<le> of_int (10 ^ nd)" by (simp add: mult_left_le_one_le)
  then have "round_half_even (x * 10 ^ nd) \<le> 10 ^ nd" by (rule round_half_even_le)
  then have "(of_int (round_half_even (x * 10 ^ nd)) :: real) \<le> of_int (10 ^ nd)"
    by (simp only: of_int_le_iff)
  then show ?thesis by (simp add: py_round_def divide_le_eq_1)
qed

lemma py_round_zero: "py_round nd 0 = 0"
  by (simp add: py_round_def round_half_even_def)

section \<open>The loader stops at the first malformed line\<close>

lemma read_lines_eq:
  "read_lines ls acc = (acc @ entries (takeWhile (\<lambda>l. l \<noteq> Malformed) ls), Malformed \<in> set ls)"
  by (induction ls acc rule: read_lines.induct) (simp_all add: entries_def)

lemma takeWhile_no_malformed:
  "Malformed \<notin> set ls \<Longrightarrow> takeWhile (\<lambda>l. l \<noteq> Malformed) ls = ls"
  by (induction ls) auto

text \<open>
  Claim C1 fails: a malformed line is not skipped. With a malformed first line
  \<^verbatim>\<open>ExperienceAnalyzer.load_sessions\<close> loads nothing of the well-formed second line, and
  \<^verbatim>\<open>load_sessions\<close> of basic_stats.py discards the record that precedes a malformed line, while
  the file without the malformed line yields that record.
\<close>

theorem malformed_line_ends_loading:
  "fst (load_sessions (Some
      [Malformed,
       Entry \<lparr>action = Some ''execute'', session_id = None, agent_type = None, cost_usd = None\<rparr>]))
     = []
   \<and> fst (bs_load_sessions (Some
      [Entry \<lparr>action = Some ''execute'', session_id = None, agent_type = None, cost_usd = None\<rparr>,
       Malformed]))
     = []
   \<and> entries
      [Malformed,
       Entry \<lparr>action = Some ''execute'', session_id = None, agent_type = None, cost_usd = None\<rparr>]
     = [\<lparr>action = Some ''execute'', session_id = None, agent_type = None, cost_usd = None\<rparr>]
   \<and> fst (load_sessions (Some
      [Entry \<lparr>action = Some ''execute'', session_id = None, agent_type = None, cost_usd = None\<rparr>]))
     = [\<lparr>action = Some ''execute'', session_id = None, agent_type = None, cost_usd = None\<rparr>]"
  by (simp add: load_sessions_def bs_load_sessions_def entries_def)

text \<open>
  Claim C1, amended: a malformed line raises no fatal error and produces one diagnostic, and
  loading stops at the first malformed line. \<^verbatim>\<open>ExperienceAnalyzer.load_sessions\<close> keeps the records
  of the lines before it; \<^verbatim>\<open>load_sessions\<close> of basic_stats.py returns the empty sequence. A file
  without malformed lines yields the records of all its non-blank lines in file order and no
  diagnostic.
\<close>

theorem load_sessions_upto_first_malformed:
  "load_sessions (Some ls) =
     (entries (takeWhile (\<lambda>l. l \<noteq> Malformed) ls),
      if Malformed \<in> set ls then [MalformedWarning] else [])
   \<and> bs_load_sessions (Some ls) =
     (if Malformed \<in> set ls then ([], [MalformedError]) else (entries ls, []))"
  by (simp add: load_sessions_def bs_load_sessions_def read_lines_eq takeWhile_no_malformed)

section \<open>Summary: success rate and total cost\<close>

lemma success_rate_eq:
  "map_of (get_summary rs) ''success_rate'' =
     Some (Num (if count_action ''execute'' rs \<noteq> 0
                then real (count_action ''complete'' rs) / real (count_action ''execute'' rs)
                else 0))"
  by (simp add: get_summary_def Let_def count_action_def)

lemma bs_success_rate_eq:
  "map_of (bs_get_summary rs) ''success_rate'' =
     Some (Num (if count_action ''execute'' rs \<noteq> 0
                then py_round 2
                  (real (count_action ''complete'' rs) / real (count_action ''execute'' rs))
                else 0))"
  by (simp add: bs_get_summary_def Let_def count_action_def)

text \<open>
  Claim C2 fails: with one \<^verbatim>\<open>execute\<close> and two \<^verbatim>\<open>complete\<close> records the success rate is 2, and
  with a single \<^verbatim>\<open>execute\<close> record it is 0 although the count of executions is 1.
\<close>

theorem success_rate_exceeds_one:
  "map_of (get_summary
      [\<lparr>action = Some ''execute'', session_id = None, agent_type = None, cost_usd = None\<rparr>,
       \<lparr>action = Some ''complete'', session_id = None, agent_type = None, cost_usd = None\<rparr>,
       \<lparr>action = Some ''complete'', session_id = None, agent_type = None, cost_usd = None\<rparr>])
     ''success_rate'' = Some (Num 2)
   \<and> \<not> (2 :: real) \<le> 1
   \<and> map_of (get_summary
      [\<lparr>action = Some ''execute'', session_id = None, agent_type = None, cost_usd = None\<rparr>])
     ''success_rate'' = Some (Num 0)
   \<and> map_of (get_summary
      [\<lparr>action = Some ''execute'', session_id = None, agent_type = None, cost_usd = None\<rparr>])
     ''total_executions'' = Some (Num 1)"
  by (simp add: get_summary_def Let_def)

text \<open>
  Claim C2, amended: for every record sequence the success rate is at least 0; it is at most 1
  whenever the count of \<^verbatim>\<open>complete\<close> records does not exceed the count of \<^verbatim>\<open>execute\<close> records, and
  it is 0 whenever one of the two counts is 0. In analyze_experience.py, where the rate is not
  rounded, both hold exactly then: the rate is at most 1 exactly when there is no \<^verbatim>\<open>execute\<close>
  record or the \<^verbatim>\<open>complete\<close> records are at most as many, and it is 0 exactly when there is no
  \<^verbatim>\<open>execute\<close> record or no \<^verbatim>\<open>complete\<close> record.
\<close>

theorem success_rate_range:
  "(\<exists>r. map_of (get_summary rs) ''success_rate'' = Some (Num r) \<and> 0 \<le> r
      \<and> (r \<le> 1 \<longleftrightarrow>
           count_action ''execute'' rs = 0
           \<or> count_action ''complete'' rs \<le> count_action ''execute'' rs)
      \<and> (r = 0 \<longleftrightarrow> count_action ''execute'' rs = 0 \<or> count_action ''complete'' rs = 0))
   \<and> (\<exists>r. map_of (bs_get_summary rs) ''success_rate'' = Some (Num r) \<and> 0 \<le> r
      \<and> (count_action ''complete'' rs \<le> count_action ''execute'' rs \<longrightarrow> r \<le> 1)
      \<and> (count_action ''execute'' rs = 0 \<or> count_action ''complete'' rs = 0 \<longrightarrow> r = 0))"
proof (intro conjI)
  show "\<exists>r. map_of (get_summary rs) ''success_rate'' = Some (Num r) \<and> 0 \<le> r
      \<and> (r \<le> 1 \<longleftrightarrow>
           count_action ''execute'' rs = 0
           \<or> count_action ''complete'' rs \<le> count_action ''execute'' rs)
      \<and> (r = 0 \<longleftrightarrow> count_action ''execute'' rs = 0 \<or> count_action ''complete'' rs = 0)"
    by (simp add: success_rate_eq divide_le_eq_1)
  show "\<exists>r. map_of (bs_get_summary rs) ''success_rate'' = Some (Num r) \<and> 0 \<le> r
      \<and> (count_action ''complete'' rs \<le> count_action ''execute'' rs \<longrightarrow> r \<le> 1)
      \<and> (count_action ''execute'' rs = 0 \<or> count_action ''complete'' rs = 0 \<longrightarrow> r = 0)"
    by (simp add: bs_success_rate_eq py_round_nonneg py_round_le_one py_round_zero
        divide_le_eq_1)
qed

text \<open>
  Two executions and one completion: the rate of basic_stats.py is within the bounds. One
  completion and no execution: it is 0.
\<close>

theorem success_rate_range_witness:
  "count_action ''complete''
      [\<lparr>action = Some ''execute'', session_id = None, agent_type = None, cost_usd = None\<rparr>,
       \<lparr>action = Some ''execute'', session_id = None, agent_type = None, cost_usd = None\<rparr>,
       \<lparr>action = Some ''complete'', session_id = None, agent_type = None, cost_usd = None\<rparr>]
    \<le> count_action ''execute''
      [\<lparr>action = Some ''execute'', session_id = None, agent_type = None, cost_usd = None\<rparr>,
       \<lparr>action = Some ''execute'', session_id = None, agent_type = None, cost_usd = None\<rparr>,
       \<lparr>action = Some ''complete'', session_id = None, agent_type = None, cost_usd = None\<rparr>]
   \<and> (\<exists>r. map_of (bs_get_summary
      [\<lparr>action = Some ''execute'', session_id = None, agent_type = None, cost_usd = None\<rparr>,
       \<lparr>action = Some ''execute'', session_id = None, agent_type = None, cost_usd = None\<rparr>,
       \<lparr>action = Some ''complete'', session_id = None, agent_type = None, cost_usd = None\<rparr>])
        ''success_rate'' = Some (Num r) \<and> 0 \<le> r \<and> r \<le> 1)
   \<and> count_action ''execute''
      [\<lparr>action = Some ''complete'', session_id = None, agent_type = None, cost_usd = None\<rparr>] = 0
   \<and> map_of (bs_get_summary
      [\<lparr>action = Some ''complete'', session_id = None, agent_type = None, cost_usd = None\<rparr>])
        ''success_rate'' = Some (Num 0)"
  using success_rate_range [of
      "[\<lparr>action = Some ''execute'', session_id = None, agent_type = None, cost_usd = None\<rparr>,
       \<lparr>action = Some ''execute'', session_id = None, agent_type = None, cost_usd = None\<rparr>,
       \<lparr>action = Some ''complete'', session_id = None, agent_type = None, cost_usd = None\<rparr>]"]
    success_rate_range [of
      "[\<lparr>action = Some ''complete'', session_id = None, agent_type = None, cost_usd = None\<rparr>]"]
  by (auto simp: count_action_def)

lemma sum_costs:
  "sum_list (map (\<lambda>s. get_cost s 0) (filter has_cost rs)) = sum_list (present_costs rs)"
  by (induction rs)
    (auto simp: present_costs_def List.map_filter_simps has_cost_def get_cost_def
      split: option.splits)

lemma total_cost_eq:
  "map_of (get_summary rs) ''total_cost_usd'' =
     Some (Num (py_round 2 (sum_list (present_costs rs))))"
  by (simp add: get_summary_def Let_def sum_costs)

lemma bs_total_cost_eq:
  "map_of (bs_get_summary rs) ''total_cost_usd'' =
     Some (Num (py_round 2 (sum_list (present_costs rs))))"
  by (simp add: bs_get_summary_def Let_def sum_costs)

lemma present_costs_append: "present_costs (xs @ ys) = present_costs xs @ present_costs ys"
  by (simp add: present_costs_def List.map_filter_def)

lemma present_costs_absent: "cost_usd r = None \<Longrightarrow> present_costs (r # ys) = present_costs ys"
  by (simp add: present_costs_def List.map_filter_simps)

lemma present_costs_action: "present_costs (map (\<lambda>s. s\<lparr>action := f s\<rparr>) rs) = present_costs rs"
  by (induction rs)
    (simp_all add: present_costs_def List.map_filter_simps split: option.splits)

text \<open>
  Claim C5: in both scripts \<^verbatim>\<open>total_cost_usd\<close> is the sum of the \<^verbatim>\<open>cost_usd\<close> values of exactly
  the records that have the field, rounded to 2 decimal places. The actions of the records do not
  matter: replacing them leaves the total unchanged. A record without the field contributes
  nothing: the total is the same with and without it.
\<close>

theorem total_cost_usd_sums_present_costs:
  "map_of (get_summary rs) ''total_cost_usd''
     = Some (Num (py_round 2 (sum_list (present_costs rs))))
   \<and> map_of (bs_get_summary rs) ''total_cost_usd''
     = Some (Num (py_round 2 (sum_list (present_costs rs))))
   \<and> map_of (get_summary (map (\<lambda>s. s\<lparr>action := f s\<rparr>) rs)) ''total_cost_usd''
       = map_of (get_summary rs) ''total_cost_usd''
   \<and> (cost_usd r = None \<longrightarrow>
        map_of (get_summary (xs @ r # ys)) ''total_cost_usd''
          = map_of (get_summary (xs @ ys)) ''total_cost_usd''
        \<and> map_of (bs_get_summary (xs @ r # ys)) ''total_cost_usd''
          = map_of (bs_get_summary (xs @ ys)) ''total_cost_usd'')"
  by (simp add: total_cost_eq bs_total_cost_eq present_costs_append present_costs_absent
      present_costs_action)

text \<open>
  Two costed records of different actions around a record without cost: the total is 0.3,
  with the middle record and without it.
\<close>

theorem total_cost_usd_witness:
  "cost_usd \<lparr>action = Some ''complete'', session_id = None, agent_type = None, cost_usd = None\<rparr>
     = None
   \<and> map_of (get_summary
      ([\<lparr>action = Some ''execute'', session_id = None, agent_type = None, cost_usd = Some 0.1\<rparr>]
       @ \<lparr>action = Some ''complete'', session_id = None, agent_type = None, cost_usd = None\<rparr>
       # [\<lparr>action = Some ''resume'', session_id = None, agent_type = None, cost_usd = Some 0.2\<rparr>]))
      ''total_cost_usd'' = Some (Num 0.3)
   \<and> map_of (get_summary
      ([\<lparr>action = Some ''execute'', session_id = None, agent_type = None, cost_usd = Some 0.1\<rparr>]
       @ [\<lparr>action = Some ''resume'', session_id = None, agent_type = None, cost_usd = Some 0.2\<rparr>]))
      ''total_cost_usd'' = Some (Num 0.3)"
  using total_cost_usd_sums_present_costs [of
      "[\<lparr>action = Some ''execute'', session_id = None, agent_type = None, cost_usd = Some 0.1\<rparr>]
       @ [\<lparr>action = Some ''resume'', session_id = None, agent_type = None, cost_usd = Some 0.2\<rparr>]"
      "\<lambda>s. None"
      "\<lparr>action = Some ''complete'', session_id = None, agent_type = None, cost_usd = None\<rparr>"
      "[\<lparr>action = Some ''execute'', session_id = None, agent_type = None, cost_usd = Some 0.1\<rparr>]"
      "[\<lparr>action = Some ''resume'', session_id = None, agent_type = None, cost_usd = Some 0.2\<rparr>]"]
  by (simp add: present_costs_def List.map_filter_simps py_round_def round_half_even_def)

section \<open>Cost distribution: what is stored under each key\<close>

lemma costs_by_action_snoc: "costs_by_action (rs @ [r]) = costs_step (costs_by_action rs) r"
  by (simp add: costs_by_action_def)

lemma costs_for_snoc:
  "costs_for a (rs @ [r]) =
     costs_for a rs @ (if action_key r = a then (case cost_usd r of Some c \<Rightarrow> [c] | None \<Rightarrow> []) else [])"
  by (simp add: costs_for_def List.map_filter_def split: option.splits)

lemma costs_by_action_distinct: "distinct (map fst (costs_by_action rs))"
proof (induction rs rule: rev_induct)
  case Nil
  then show ?case by (simp add: costs_by_action_def)
next
  case (snoc r rs)
  then show ?case
    by (simp add: costs_by_action_snoc costs_step_def Let_def distinct_update split: option.splits)
qed

lemma costs_by_action_lookup:
  "map_of (costs_by_action rs) a = (if costs_for a rs = [] then None else Some (costs_for a rs))"
proof (induction rs arbitrary: a rule: rev_induct)
  case Nil
  then show ?case by (simp add: costs_by_action_def costs_for_def List.map_filter_simps)
next
  case (snoc r rs)
  show ?case
  proof (cases "cost_usd r")
    case None
    then show ?thesis using snoc [of a]
      by (simp add: costs_by_action_snoc costs_step_def costs_for_snoc)
  next
    case (Some c)
    then show ?thesis using snoc [of a] snoc [of "action_key r"]
      by (simp add: costs_by_action_snoc costs_step_def costs_for_snoc Let_def update_conv'
          costs_get_def)
  qed
qed

lemma cost_result_lookup:
  "distinct (map fst xs) \<Longrightarrow>
   map_of (foldl cost_result_step acc xs) a =
     (case map_of xs a of
        Some cs \<Rightarrow> if cs \<noteq> [] then Some (Dict (action_stats cs)) else map_of acc a
      | None \<Rightarrow> map_of acc a)"
proof (induction xs arbitrary: acc)
  case Nil
  then show ?case by simp
next
  case (Cons x xs)
  obtain k cs where x: "x = (k, cs)" by (cases x)
  have k: "map_of xs k = None" using Cons.prems x by (simp add: map_of_eq_None_iff)
  show ?case using Cons.prems Cons.IH [of "cost_result_step acc x"] k
    by (auto simp: x cost_result_step_def update_conv' split: option.splits)
qed

lemma execute_costs_eq: "execute_costs rs = costed_execute_costs rs"
  by (induction rs)
    (auto simp: execute_costs_def costed_execute_costs_def List.map_filter_simps has_cost_def
      get_cost_def split: option.splits)

lemma analyze_costs_lookup:
  "map_of (analyze_costs rs) a =
     (if a = ''categories'' \<and> costed_execute_costs rs \<noteq> []
      then Some (Dict (cost_categories (costed_execute_costs rs)))
      else if costs_for a rs = [] then None
      else Some (Dict (action_stats (costs_for a rs))))"
  by (simp add: analyze_costs_def Let_def update_conv' cost_result_lookup
      costs_by_action_distinct costs_by_action_lookup execute_costs_eq)

lemma category_count_present:
  "costed_execute_costs rs \<noteq> [] \<Longrightarrow>
   category_count (analyze_costs rs) ''simple''
     = Some (real (length (filter is_simple (costed_execute_costs rs))))
   \<and> category_count (analyze_costs rs) ''medium''
     = Some (real (length (filter is_medium (costed_execute_costs rs))))
   \<and> category_count (analyze_costs rs) ''complex''
     = Some (real (length (filter is_complex (costed_execute_costs rs))))"
  by (simp add: category_count_def getitem_def analyze_costs_lookup cost_categories_def
      is_simple_def [abs_def] is_medium_def [abs_def] is_complex_def [abs_def])

lemma category_count_absent:
  "costed_execute_costs rs = [] \<Longrightarrow>
   category_count (analyze_costs rs) ''simple'' = None
   \<and> category_count (analyze_costs rs) ''medium'' = None
   \<and> category_count (analyze_costs rs) ''complex'' = None"
  by (simp add: category_count_def getitem_def analyze_costs_lookup action_stats_def)

lemma categories_cover:
  "length (filter is_simple cs) + length (filter is_medium cs) + length (filter is_complex cs)
     = length cs"
  by (induction cs) (auto simp: is_simple_def is_medium_def is_complex_def)

lemma categories_disjoint:
  "\<not> (is_simple c \<and> is_medium c) \<and> \<not> (is_simple c \<and> is_complex c) \<and> \<not> (is_medium c \<and> is_complex c)"
  by (auto simp: is_simple_def is_medium_def is_complex_def)


lemma bs_analyze_costs_eq: "bs_analyze_costs rs = analyze_costs rs"
proof -
  have 1: "bs_costs_step = costs_step"
    by (intro ext) (simp add: bs_costs_step_def costs_step_def)
  have 2: "bs_action_stats = action_stats"
    by (intro ext) (simp add: bs_action_stats_def action_stats_def)
  have 3: "bs_cost_result_step = cost_result_step"
    by (intro ext) (simp add: bs_cost_result_step_def cost_result_step_def 2 split: prod.splits)
  have 4: "bs_cost_categories = cost_categories"
    by (intro ext) (simp add: bs_cost_categories_def cost_categories_def)
  show ?thesis
    by (simp add: bs_analyze_costs_def analyze_costs_def costs_by_action_def execute_costs_def
        Let_def 1 3 4)
qed


lemma bs_category_count_present:
  "costed_execute_costs rs \<noteq> [] \<Longrightarrow>
   category_count (bs_analyze_costs rs) ''simple''
     = Some (real (length (filter is_simple (costed_execute_costs rs))))
   \<and> category_count (bs_analyze_costs rs) ''medium''
     = Some (real (length (filter is_medium (costed_execute_costs rs))))
   \<and> category_count (bs_analyze_costs rs) ''complex''
     = Some (real (length (filter is_complex (costed_execute_costs rs))))"
  using category_count_present [of rs] by (simp add: bs_analyze_costs_eq)

lemma bs_category_count_absent:
  "costed_execute_costs rs = [] \<Longrightarrow>
   category_count (bs_analyze_costs rs) ''simple'' = None
   \<and> category_count (bs_analyze_costs rs) ''medium'' = None
   \<and> category_count (bs_analyze_costs rs) ''complex'' = None"
  using category_count_absent [of rs] by (simp add: bs_analyze_costs_eq)

text \<open>
  Claim C6: in both scripts, when at least one costed \<^verbatim>\<open>execute\<close> record exists the categories
  block is present and its three counts are the numbers of costed \<^verbatim>\<open>execute\<close> records with cost
  at most 0.15, with cost above 0.15 and at most 0.40, and with cost above 0.40; when none exists
  no category count can be read from the result. The three counts add up to the number of costed
  \<^verbatim>\<open>execute\<close> records, and no cost lies in two categories.
\<close>

theorem cost_categories_partition:
  "(costed_execute_costs rs \<noteq> [] \<longrightarrow>
      category_count (analyze_costs rs) ''simple''
        = Some (real (length (filter is_simple (costed_execute_costs rs))))
      \<and> category_count (analyze_costs rs) ''medium''
        = Some (real (length (filter is_medium (costed_execute_costs rs))))
      \<and> category_count (analyze_costs rs) ''complex''
        = Some (real (length (filter is_complex (costed_execute_costs rs))))
      \<and> category_count (bs_analyze_costs rs) ''simple''
        = Some (real (length (filter is_simple (costed_execute_costs rs))))
      \<and> category_count (bs_analyze_costs rs) ''medium''
        = Some (real (length (filter is_medium (costed_execute_costs rs))))
      \<and> category_count (bs_analyze_costs rs) ''complex''
        = Some (real (length (filter is_complex (costed_execute_costs rs)))))
   \<and> (costed_execute_costs rs = [] \<longrightarrow>
      category_count (analyze_costs rs) ''simple'' = None
      \<and> category_count (analyze_costs rs) ''medium'' = None
      \<and> category_count (analyze_costs rs) ''complex'' = None
      \<and> category_count (bs_analyze_costs rs) ''simple'' = None
      \<and> category_count (bs_analyze_costs rs) ''medium'' = None
      \<and> category_count (bs_analyze_costs rs) ''complex'' = None)
   \<and> length (filter is_simple (costed_execute_costs rs))
      + length (filter is_medium (costed_execute_costs rs))
      + length (filter is_complex (costed_execute_costs rs))
     = length (costed_execute_costs rs)
   \<and> (\<forall>c. \<not> (is_simple c \<and> is_medium c) \<and> \<not> (is_simple c \<and> is_complex c)
          \<and> \<not> (is_medium c \<and> is_complex c))"
  using category_count_present [of rs] category_count_absent [of rs]
    bs_category_count_present [of rs] bs_category_count_absent [of rs] categories_disjoint
  by (simp add: categories_cover)

text \<open>
  The scenario of the specification: costs 0.10 and 0.20 on two \<^verbatim>\<open>execute\<close> records and a
  \<^verbatim>\<open>complete\<close> record give one simple, one medium and no complex agent. A costed record whose
  action is the string \<^verbatim>\<open>categories\<close>, without any \<^verbatim>\<open>execute\<close> record, puts its per-action
  statistics under that key, and no category count can be read.
\<close>

theorem cost_categories_partition_witness:
  "costed_execute_costs
      [\<lparr>action = Some ''execute'', session_id = None, agent_type = None, cost_usd = Some 0.10\<rparr>,
       \<lparr>action = Some ''execute'', session_id = None, agent_type = None, cost_usd = Some 0.20\<rparr>,
       \<lparr>action = Some ''complete'', session_id = None, agent_type = None, cost_usd = None\<rparr>]
     \<noteq> []
   \<and> category_count (analyze_costs
      [\<lparr>action = Some ''execute'', session_id = None, agent_type = None, cost_usd = Some 0.10\<rparr>,
       \<lparr>action = Some ''execute'', session_id = None, agent_type = None, cost_usd = Some 0.20\<rparr>,
       \<lparr>action = Some ''complete'', session_id = None, agent_type = None, cost_usd = None\<rparr>])
      ''simple'' = Some 1
   \<and> category_count (analyze_costs
      [\<lparr>action = Some ''execute'', session_id = None, agent_type = None, cost_usd = Some 0.10\<rparr>,
       \<lparr>action = Some ''execute'', session_id = None, agent_type = None, cost_usd = Some 0.20\<rparr>,
       \<lparr>action = Some ''complete'', session_id = None, agent_type = None, cost_usd = None\<rparr>])
      ''medium'' = Some 1
   \<and> category_count (analyze_costs
      [\<lparr>action = Some ''execute'', session_id = None, agent_type = None, cost_usd = Some 0.10\<rparr>,
       \<lparr>action = Some ''execute'', session_id = None, agent_type = None, cost_usd = Some 0.20\<rparr>,
       \<lparr>action = Some ''complete'', session_id = None, agent_type = None, cost_usd = None\<rparr>])
      ''complex'' = Some 0
   \<and> costed_execute_costs
      [\<lparr>action = Some ''categories'', session_id = None, agent_type = None, cost_usd = Some 0.5\<rparr>]
     = []
   \<and> category_count (analyze_costs
      [\<lparr>action = Some ''categories'', session_id = None, agent_type = None, cost_usd = Some 0.5\<rparr>])
      ''simple'' = None"
  using cost_categories_partition [of
      "[\<lparr>action = Some ''execute'', session_id = None, agent_type = None, cost_usd = Some 0.10\<rparr>,
       \<lparr>action = Some ''execute'', session_id = None, agent_type = None, cost_usd = Some 0.20\<rparr>,
       \<lparr>action = Some ''complete'', session_id = None, agent_type = None, cost_usd = None\<rparr>]"]
    cost_categories_partition [of
      "[\<lparr>action = Some ''categories'', session_id = None, agent_type = None, cost_usd = Some 0.5\<rparr>]"]
  by (simp add: costed_execute_costs_def List.map_filter_simps is_simple_def is_medium_def
      is_complex_def)

text \<open>
  Claim C10: on every list of records \<^verbatim>\<open>analyze_costs\<close> of basic_stats.py returns the same
  mapping as \<^verbatim>\<open>ExperienceAnalyzer.analyze_costs\<close>.
\<close>

theorem bs_analyze_costs_is_analyze_costs:
  "bs_analyze_costs rs = analyze_costs rs"
  by (rule bs_analyze_costs_eq)

section \<open>By agent type: what is stored under each type\<close>

lemma collect_type_data_snoc:
  "collect_type_data (rs @ [r]) = type_data_step (collect_type_data rs) r"
  by (simp add: collect_type_data_def)

lemma td_get_update: "td_get (AList.update k v tds) t = (if t = k then v else td_get tds t)"
  by (simp add: td_get_def update_conv')

lemma type_costs_snoc:
  "type_costs t (rs @ [r]) =
     type_costs t rs @
       (if type_key r = t \<and> action r = Some ''execute''
        then (case cost_usd r of Some c \<Rightarrow> [c] | None \<Rightarrow> []) else [])"
  by (simp add: type_costs_def List.map_filter_def split: option.splits)

lemma collect_type_data_distinct: "distinct (map fst (collect_type_data rs))"
proof (induction rs rule: rev_induct)
  case Nil
  then show ?case by (simp add: collect_type_data_def)
next
  case (snoc r rs)
  then show ?case
    by (simp add: collect_type_data_snoc type_data_step_def Let_def distinct_update
        split: option.splits)
qed

lemma td_get_step:
  "td_get (type_data_step tds s) t =
     (if type_key s = t then
        (let d = td_get tds t
         in if action s = Some ''execute'' then
              d\<lparr>td_count := td_count d + 1,
                td_costs := td_costs d @ (case cost_usd s of Some c \<Rightarrow> [c] | None \<Rightarrow> [])\<rparr>
            else if action s = Some ''complete'' then d\<lparr>td_success := td_success d + 1\<rparr>
            else if action s = Some ''failed'' then d\<lparr>td_failed := td_failed d + 1\<rparr>
            else d)
      else td_get tds t)"
  by (auto simp: type_data_step_def Let_def td_get_update split: option.splits)

lemma td_get_collect:
  "td_get (collect_type_data rs) t =
     \<lparr>td_count = count_type_action t ''execute'' rs,
      td_costs = type_costs t rs,
      td_success = count_type_action t ''complete'' rs,
      td_failed = count_type_action t ''failed'' rs\<rparr>"
proof (induction rs rule: rev_induct)
  case Nil
  then show ?case
    by (simp add: collect_type_data_def td_get_def td_default_def count_type_action_def
        type_costs_def List.map_filter_simps)
next
  case (snoc r rs)
  then show ?case
    by (simp add: collect_type_data_snoc td_get_step Let_def count_type_action_def
        type_costs_snoc)
qed

lemma type_result_lookup:
  "distinct (map fst xs) \<Longrightarrow>
   map_of (foldl (type_result_step rate) acc xs) t =
     (case map_of xs t of
        Some d \<Rightarrow> if td_count d > 0 then Some (Dict (agent_type_stats rate d)) else map_of acc t
      | None \<Rightarrow> map_of acc t)"
proof (induction xs arbitrary: acc)
  case Nil
  then show ?case by simp
next
  case (Cons x xs)
  obtain k d where x: "x = (k, d)" by (cases x)
  have k: "map_of xs k = None" using Cons.prems x by (simp add: map_of_eq_None_iff)
  show ?case using Cons.prems Cons.IH [of "type_result_step rate acc x"] k
    by (auto simp: x type_result_step_def update_conv' split: option.splits)
qed

lemma type_result_collect:
  "map_of (foldl (type_result_step rate) [] (collect_type_data rs)) t =
     (if count_type_action t ''execute'' rs > 0
      then Some (Dict (agent_type_stats rate
        \<lparr>td_count = count_type_action t ''execute'' rs,
         td_costs = type_costs t rs,
         td_success = count_type_action t ''complete'' rs,
         td_failed = count_type_action t ''failed'' rs\<rparr>))
      else None)"
proof (cases "map_of (collect_type_data rs) t")
  case None
  then have "td_get (collect_type_data rs) t = td_default" by (simp add: td_get_def)
  then have "count_type_action t ''execute'' rs = 0"
    using td_get_collect [of rs t] by (simp add: td_default_def)
  then show ?thesis using None
    by (simp add: type_result_lookup collect_type_data_distinct)
next
  case (Some d)
  then have "td_get (collect_type_data rs) t = d" by (simp add: td_get_def)
  then have d: "d = \<lparr>td_count = count_type_action t ''execute'' rs,
         td_costs = type_costs t rs,
         td_success = count_type_action t ''complete'' rs,
         td_failed = count_type_action t ''failed'' rs\<rparr>"
    using td_get_collect [of rs t] by simp
  show ?thesis using Some
    by (simp add: type_result_lookup collect_type_data_distinct) (simp add: d)
qed

lemma type_costs_length: "length (type_costs t rs) \<le> count_type_action t ''execute'' rs"
  by (induction rs)
    (auto simp: type_costs_def count_type_action_def List.map_filter_simps split: option.splits)


text \<open>
  Claim C7: the standard deviation of a cost list with fewer than 2 elements is reported as 0;
  in the per-action statistics of an action whose cost list is the single value \<open>c\<close> the standard
  deviation is 0 and the median is \<open>c\<close> itself, not rounded (for the key \<^verbatim>\<open>categories\<close> this is
  the entry only when no costed \<^verbatim>\<open>execute\<close> record puts the categories block there); in the
  statistics of an agent type whose cost list is the single value \<open>c\<close> the median cost is \<open>c\<close>
  itself.
\<close>

theorem single_cost_statistics:
  "(length costs < 2 \<longrightarrow> map_of (action_stats costs) ''stdev'' = Some (Num 0))
   \<and> (costs_for a rs = [c] \<and> (a = ''categories'' \<longrightarrow> costed_execute_costs rs = []) \<longrightarrow>
        (\<exists>d. map_of (analyze_costs rs) a = Some (Dict d)
           \<and> map_of d ''stdev'' = Some (Num 0) \<and> map_of d ''median'' = Some (Num c)))
   \<and> (type_costs t rs = [c] \<longrightarrow>
        (\<exists>d. map_of (analyze_agent_types rs) t = Some (Dict d)
           \<and> map_of d ''median_cost'' = Some (Num c)))"
proof (intro conjI impI)
  assume "length costs < 2"
  then show "map_of (action_stats costs) ''stdev'' = Some (Num 0)"
    by (simp add: action_stats_def)
next
  assume "costs_for a rs = [c] \<and> (a = ''categories'' \<longrightarrow> costed_execute_costs rs = [])"
  then have "map_of (analyze_costs rs) a = Some (Dict (action_stats [c]))"
    by (auto simp: analyze_costs_lookup)
  then show "\<exists>d. map_of (analyze_costs rs) a = Some (Dict d)
           \<and> map_of d ''stdev'' = Some (Num 0) \<and> map_of d ''median'' = Some (Num c)"
    by (simp add: action_stats_def)
next
  assume c: "type_costs t rs = [c]"
  then have "count_type_action t ''execute'' rs > 0"
    using type_costs_length [of t rs] by simp
  then show "\<exists>d. map_of (analyze_agent_types rs) t = Some (Dict d)
           \<and> map_of d ''median_cost'' = Some (Num c)"
    using c by (simp add: analyze_agent_types_def type_result_collect agent_type_stats_def)
qed


text \<open>One \<^verbatim>\<open>execute\<close> record of cost 0.3 and no agent type.\<close>

theorem single_cost_statistics_witness:
  "length [0.3 :: real] < 2
   \<and> costs_for ''execute''
       [\<lparr>action = Some ''execute'', session_id = None, agent_type = None, cost_usd = Some 0.3\<rparr>]
     = [0.3]
   \<and> type_costs ''unknown''
       [\<lparr>action = Some ''execute'', session_id = None, agent_type = None, cost_usd = Some 0.3\<rparr>]
     = [0.3]
   \<and> map_of (action_stats [0.3]) ''stdev'' = Some (Num 0)
   \<and> (\<exists>d. map_of (analyze_costs
         [\<lparr>action = Some ''execute'', session_id = None, agent_type = None, cost_usd = Some 0.3\<rparr>])
         ''execute'' = Some (Dict d)
       \<and> map_of d ''stdev'' = Some (Num 0) \<and> map_of d ''median'' = Some (Num 0.3))
   \<and> (\<exists>d. map_of (analyze_agent_types
         [\<lparr>action = Some ''execute'', session_id = None, agent_type = None, cost_usd = Some 0.3\<rparr>])
         ''unknown'' = Some (Dict d)
       \<and> map_of d ''median_cost'' = Some (Num 0.3))"
  using single_cost_statistics [of "[0.3]" "''execute''"
      "[\<lparr>action = Some ''execute'', session_id = None, agent_type = None, cost_usd = Some 0.3\<rparr>]"
      "0.3" "''unknown''"]
  by (simp add: costs_for_def type_costs_def List.map_filter_simps action_key_def type_key_def)


section \<open>Success analysis: the outcome of a session\<close>

lemma outcome_step_lookup:
  "map_of (outcome_step v acc x) sid =
     (if sid \<noteq> [] \<and> session_id x = Some sid then Some v else map_of acc sid)"
  by (auto simp: outcome_step_def truthy_def update_conv' split: option.splits)

lemma outcome_fold_lookup:
  "map_of (foldl (outcome_step v) acc xs) sid =
     (if sid \<noteq> [] \<and> (\<exists>s \<in> set xs. session_id s = Some sid) then Some v else map_of acc sid)"
proof (induction xs arbitrary: acc)
  case Nil
  then show ?case by simp
next
  case (Cons x xs)
  show ?case
    by (auto simp: Cons.IH outcome_step_lookup)
qed

lemma session_outcomes_lookup:
  "map_of (session_outcomes rs) sid =
     (if sid = [] then None
      else if has_record ''failed'' sid rs then Some ''failed''
      else if has_record ''complete'' sid rs then Some ''success''
      else None)"
  by (auto simp: session_outcomes_def Let_def outcome_fold_lookup has_record_def)

lemma last_terminal_snoc:
  "last_terminal_outcome sid (rs @ [r]) =
     (if session_id r = Some sid \<and> action r = Some ''complete'' then Some ''success''
      else if session_id r = Some sid \<and> action r = Some ''failed'' then Some ''failed''
      else last_terminal_outcome sid rs)"
  by (auto simp: last_terminal_outcome_def)

lemma last_terminal_one_kind:
  "\<not> (has_record ''failed'' sid rs \<and> has_record ''complete'' sid rs) \<Longrightarrow>
   last_terminal_outcome sid rs =
     (if has_record ''failed'' sid rs then Some ''failed''
      else if has_record ''complete'' sid rs then Some ''success''
      else None)"
proof (induction rs rule: rev_induct)
  case Nil
  then show ?case by (simp add: last_terminal_outcome_def has_record_def)
next
  case (snoc r rs)
  then show ?case
    by (auto simp: last_terminal_snoc has_record_def)
qed

text \<open>
  Claim C3 fails: for a session whose \<^verbatim>\<open>failed\<close> record comes first and whose \<^verbatim>\<open>complete\<close>
  record comes last, \<^verbatim>\<open>analyze_success\<close> assigns \<^verbatim>\<open>failed\<close>, while the last terminal record in
  file order is the \<^verbatim>\<open>complete\<close> one.
\<close>

theorem failed_overrides_later_complete:
  "map_of (session_outcomes
      [\<lparr>action = Some ''failed'', session_id = Some ''s1'', agent_type = None, cost_usd = None\<rparr>,
       \<lparr>action = Some ''complete'', session_id = Some ''s1'', agent_type = None, cost_usd = None\<rparr>])
     ''s1'' = Some ''failed''
   \<and> last_terminal_outcome ''s1''
      [\<lparr>action = Some ''failed'', session_id = Some ''s1'', agent_type = None, cost_usd = None\<rparr>,
       \<lparr>action = Some ''complete'', session_id = Some ''s1'', agent_type = None, cost_usd = None\<rparr>]
     = Some ''success''"
  by (simp add: session_outcomes_def outcome_step_def truthy_def last_terminal_outcome_def)

text \<open>
  Claim C3, amended: for every record sequence and every non-empty session id, the outcome is
  \<^verbatim>\<open>failed\<close> when the id has at least one \<^verbatim>\<open>failed\<close> record, and \<^verbatim>\<open>success\<close> when it has a
  \<^verbatim>\<open>complete\<close> record and no \<^verbatim>\<open>failed\<close> record: a \<^verbatim>\<open>failed\<close> record overrides every \<^verbatim>\<open>complete\<close>
  record of the same id, wherever they stand in the file. The empty id and an id without terminal
  record get no outcome. When the records of an id are not of both kinds, the outcome is that of
  its last terminal record.
\<close>

theorem session_outcome_failed_wins:
  "map_of (session_outcomes rs) sid =
     (if sid = [] then None
      else if has_record ''failed'' sid rs then Some ''failed''
      else if has_record ''complete'' sid rs then Some ''success''
      else None)
   \<and> (sid \<noteq> [] \<and> \<not> (has_record ''failed'' sid rs \<and> has_record ''complete'' sid rs) \<longrightarrow>
        map_of (session_outcomes rs) sid = last_terminal_outcome sid rs)"
  by (simp add: session_outcomes_lookup last_terminal_one_kind)

text \<open>
  A session with both kinds of records, \<^verbatim>\<open>failed\<close> first, and a session with one \<^verbatim>\<open>complete\<close>
  record.
\<close>

theorem session_outcome_failed_wins_witness:
  "''s1'' \<noteq> []
   \<and> has_record ''failed'' ''s1''
      [\<lparr>action = Some ''failed'', session_id = Some ''s1'', agent_type = None, cost_usd = None\<rparr>,
       \<lparr>action = Some ''complete'', session_id = Some ''s1'', agent_type = None, cost_usd = None\<rparr>]
   \<and> map_of (session_outcomes
      [\<lparr>action = Some ''failed'', session_id = Some ''s1'', agent_type = None, cost_usd = None\<rparr>,
       \<lparr>action = Some ''complete'', session_id = Some ''s1'', agent_type = None, cost_usd = None\<rparr>])
     ''s1'' = Some ''failed''
   \<and> \<not> has_record ''failed'' ''s2''
      [\<lparr>action = Some ''complete'', session_id = Some ''s2'', agent_type = None, cost_usd = None\<rparr>]
   \<and> map_of (session_outcomes
      [\<lparr>action = Some ''complete'', session_id = Some ''s2'', agent_type = None, cost_usd = None\<rparr>])
     ''s2'' = last_terminal_outcome ''s2''
      [\<lparr>action = Some ''complete'', session_id = Some ''s2'', agent_type = None, cost_usd = None\<rparr>]"
  using session_outcome_failed_wins [of
      "[\<lparr>action = Some ''failed'', session_id = Some ''s1'', agent_type = None, cost_usd = None\<rparr>,
       \<lparr>action = Some ''complete'', session_id = Some ''s1'', agent_type = None, cost_usd = None\<rparr>]"
      "''s1''"]
    session_outcome_failed_wins [of
      "[\<lparr>action = Some ''complete'', session_id = Some ''s2'', agent_type = None, cost_usd = None\<rparr>]"
      "''s2''"]
  by (simp add: has_record_def last_terminal_outcome_def)

section \<open>Resume patterns\<close>

lemma resume_step_keys:
  "fst ` set (resume_step cnt s) =
     fst ` set cnt \<union> (case session_id s of Some sid \<Rightarrow> if sid \<noteq> [] then {sid} else {} | None \<Rightarrow> {})"
  by (auto simp: resume_step_def truthy_def dom_update split: option.splits)

lemma resume_step_distinct: "distinct (map fst cnt) \<Longrightarrow> distinct (map fst (resume_step cnt s))"
  by (simp add: resume_step_def distinct_update split: option.splits)

lemma resume_fold_keys:
  "fst ` set (foldl resume_step cnt xs) =
     fst ` set cnt \<union>
     set (List.map_filter (\<lambda>s. if truthy (session_id s) then session_id s else None) xs)"
proof (induction xs arbitrary: cnt)
  case Nil
  then show ?case by (simp add: List.map_filter_simps)
next
  case (Cons x xs)
  show ?case
    by (auto simp: Cons.IH resume_step_keys List.map_filter_simps truthy_def split: option.splits)
qed

lemma resume_fold_distinct:
  "distinct (map fst cnt) \<Longrightarrow> distinct (map fst (foldl resume_step cnt xs))"
  by (induction xs arbitrary: cnt) (simp_all add: resume_step_distinct)

lemma resume_ids_filter:
  "List.map_filter (\<lambda>s. if truthy (session_id s) then session_id s else None)
     (filter (\<lambda>s. action s = Some ''resume'') rs)
   = List.map_filter
       (\<lambda>s. if action s = Some ''resume'' \<and> truthy (session_id s) then session_id s else None) rs"
  by (induction rs) (auto simp: List.map_filter_simps split: option.splits)

lemma session_resumes_keys: "fst ` set (session_resumes rs) = resumed_sessions rs"
  by (simp add: session_resumes_def resume_fold_keys resumed_sessions_def resume_ids_filter)

lemma session_resumes_length: "length (session_resumes rs) = card (resumed_sessions rs)"
proof -
  have "distinct (map fst (session_resumes rs))"
    by (simp add: session_resumes_def resume_fold_distinct)
  then have "card (set (map fst (session_resumes rs))) = length (map fst (session_resumes rs))"
    by (rule distinct_card)
  then show ?thesis using session_resumes_keys [of rs] by simp
qed

lemma resumed_sessions_empty:
  "resumed_sessions rs = {} \<longleftrightarrow> \<not> (\<exists>s \<in> set rs. action s = Some ''resume'' \<and> truthy (session_id s))"
  by (induction rs) (auto simp: resumed_sessions_def List.map_filter_simps truthy_def)

lemma session_resumes_Nil:
  "session_resumes rs = [] \<longleftrightarrow> \<not> (\<exists>s \<in> set rs. action s = Some ''resume'' \<and> truthy (session_id s))"
  using session_resumes_keys [of rs] resumed_sessions_empty [of rs] by auto

text \<open>
  Claim C9 fails at a \<^verbatim>\<open>resume\<close> record whose session id is the empty string: the record has a
  session id, and the result has no distribution.
\<close>

theorem empty_session_id_not_counted:
  "action \<lparr>action = Some ''resume'', session_id = Some '''', agent_type = None, cost_usd = None\<rparr>
     = Some ''resume''
   \<and> session_id \<lparr>action = Some ''resume'', session_id = Some '''', agent_type = None, cost_usd = None\<rparr>
     \<noteq> None
   \<and> map_of (analyze_resumes
       [\<lparr>action = Some ''resume'', session_id = Some '''', agent_type = None, cost_usd = None\<rparr>])
       ''distribution'' = None"
  by (simp add: analyze_resumes_def session_resumes_def resume_step_def truthy_def)


text \<open>
  Claim C9, amended: for every record sequence with at least one \<^verbatim>\<open>resume\<close> record carrying a
  non-empty session id, the 0-resumes bucket of the distribution is the count of \<^verbatim>\<open>complete\<close>
  records minus the number of distinct non-empty session ids with at least one resume, an integer
  that may be negative; when there is no such record the result is \<^verbatim>\<open>total_resumes = 0\<close>,
  \<^verbatim>\<open>sessions_with_resumes = 0\<close>, \<^verbatim>\<open>avg_resumes_per_session = 0\<close> and nothing else.
\<close>

theorem zero_resumes_bucket:
  "((\<exists>s \<in> set rs. action s = Some ''resume'' \<and> truthy (session_id s)) \<longrightarrow>
      (\<exists>d. map_of (analyze_resumes rs) ''distribution'' = Some (Dict d)
         \<and> map_of d ''0_resumes''
            = Some (Num (of_int (int (count_action ''complete'' rs)
                                  - int (card (resumed_sessions rs)))))))
   \<and> (\<not> (\<exists>s \<in> set rs. action s = Some ''resume'' \<and> truthy (session_id s)) \<longrightarrow>
      analyze_resumes rs =
        [(''total_resumes'', Num 0),
         (''sessions_with_resumes'', Num 0),
         (''avg_resumes_per_session'', Num 0)])"
  using session_resumes_Nil [of rs]
  by (simp add: analyze_resumes_def Let_def session_resumes_length count_action_def)

text \<open>
  One resumed session and no completion: the bucket is -1. No \<^verbatim>\<open>resume\<close> record: the three
  zero fields.
\<close>

theorem zero_resumes_bucket_witness:
  "(\<exists>s \<in> set [\<lparr>action = Some ''resume'', session_id = Some ''s1'', agent_type = None, cost_usd = None\<rparr>].
      action s = Some ''resume'' \<and> truthy (session_id s))
   \<and> (\<exists>d. map_of (analyze_resumes
         [\<lparr>action = Some ''resume'', session_id = Some ''s1'', agent_type = None, cost_usd = None\<rparr>])
         ''distribution'' = Some (Dict d)
       \<and> map_of d ''0_resumes'' = Some (Num (- 1)))
   \<and> \<not> (\<exists>s \<in> set [\<lparr>action = Some ''execute'', session_id = Some ''s1'', agent_type = None, cost_usd = None\<rparr>].
      action s = Some ''resume'' \<and> truthy (session_id s))
   \<and> analyze_resumes
       [\<lparr>action = Some ''execute'', session_id = Some ''s1'', agent_type = None, cost_usd = None\<rparr>]
     = [(''total_resumes'', Num 0),
        (''sessions_with_resumes'', Num 0),
        (''avg_resumes_per_session'', Num 0)]"
  using zero_resumes_bucket [of "[\<lparr>action = Some ''resume'', session_id = Some ''s1'', agent_type = None, cost_usd = None\<rparr>]"]
    zero_resumes_bucket [of "[\<lparr>action = Some ''execute'', session_id = Some ''s1'', agent_type = None, cost_usd = None\<rparr>]"]
  by (simp add: truthy_def count_action_def resumed_sessions_def List.map_filter_simps)

section \<open>Recommendations\<close>

lemma set_update_subset: "set (AList.update k v al) \<subseteq> insert (k, v) (set al)"
  by (induction al) auto

lemma type_result_entries:
  "e \<in> set (foldl (type_result_step rate) acc xs) \<Longrightarrow>
   e \<in> set acc \<or> (\<exists>d. snd e = Dict (agent_type_stats rate d))"
proof (induction xs arbitrary: acc)
  case Nil
  then show ?case by simp
next
  case (Cons x xs)
  from Cons.prems have "e \<in> set (foldl (type_result_step rate) (type_result_step rate acc x) xs)"
    by simp
  then have "e \<in> set (type_result_step rate acc x) \<or> (\<exists>d. snd e = Dict (agent_type_stats rate d))"
    by (rule Cons.IH)
  then show ?case
  proof
    assume e: "e \<in> set (type_result_step rate acc x)"
    obtain k d where x: "x = (k, d)" by (cases x)
    show ?thesis
    proof (cases "td_count d > 0")
      case True
      then have "e \<in> set (AList.update k (Dict (agent_type_stats rate d)) acc)"
        using e by (simp add: type_result_step_def x)
      then have "e = (k, Dict (agent_type_stats rate d)) \<or> e \<in> set acc"
        using set_update_subset [of k "Dict (agent_type_stats rate d)" acc] by blast
      then show ?thesis by auto
    next
      case False
      then show ?thesis using e by (simp add: type_result_step_def x)
    qed
  next
    assume "\<exists>d. snd e = Dict (agent_type_stats rate d)"
    then show ?thesis by simp
  qed
qed

lemma count_of_stats: "count_of (t, Dict (agent_type_stats rate d)) = Some (real (td_count d))"
  by (simp add: agent_type_stats_def getitem_def Let_def)

lemma analyze_agent_types_count_of:
  "e \<in> set (analyze_agent_types rs) \<Longrightarrow> count_of e \<noteq> None"
proof -
  assume "e \<in> set (analyze_agent_types rs)"
  then have "\<exists>d. snd e = Dict (agent_type_stats (\<lambda>r. r) d)"
    using type_result_entries [of e "\<lambda>r. r" "[]" "collect_type_data rs"]
    by (simp add: analyze_agent_types_def)
  then obtain d where "snd e = Dict (agent_type_stats (\<lambda>r. r) d)" by blast
  then have "e = (fst e, Dict (agent_type_stats (\<lambda>r. r) d))" by (cases e) simp
  then show ?thesis using count_of_stats [of "fst e" "\<lambda>r. r" d] by simp
qed

lemma max_from_total:
  "(\<And>x. x \<in> set xs \<Longrightarrow> count_of x \<noteq> None) \<Longrightarrow> \<exists>m. max_from best bk xs = Some m"
proof (induction xs arbitrary: best bk)
  case Nil
  then show ?case by simp
next
  case (Cons x xs)
  then obtain k where k: "count_of x = Some k" by fastforce
  have "\<And>b c. \<exists>m. max_from b c xs = Some m" using Cons by simp
  then show ?case using k by simp
qed

lemma max_by_count_total:
  "items \<noteq> [] \<Longrightarrow> (\<And>x. x \<in> set items \<Longrightarrow> count_of x \<noteq> None) \<Longrightarrow>
   \<exists>m. max_by_count items = Some m"
proof (cases items)
  case Nil
  assume "items \<noteq> []"
  with Nil show ?thesis by simp
next
  case (Cons x xs)
  assume a: "\<And>x. x \<in> set items \<Longrightarrow> count_of x \<noteq> None"
  then obtain k where k: "count_of x = Some k" using Cons by fastforce
  have "\<exists>m. max_from x k xs = Some m" using a Cons by (intro max_from_total) simp
  then show ?thesis using Cons k by (simp add: max_by_count_def)
qed

lemma success_rate_item:
  "getitem (get_summary rs) ''success_rate'' =
     Some (Num (if count_action ''execute'' rs \<noteq> 0
                then real (count_action ''complete'' rs) / real (count_action ''execute'' rs)
                else 0))"
  by (simp add: getitem_def get_summary_def Let_def count_action_def)

lemma avg_cost_number: "\<exists>x. number (get_or (get_summary rs) ''avg_cost_per_agent'' (Num 0)) = Some x"
  by (simp add: get_or_def get_summary_def Let_def)

lemma avg_resumes_number:
  "\<exists>x. number (get_or (analyze_resumes rs) ''avg_resumes_per_session'' (Num 0)) = Some x"
  by (simp add: get_or_def analyze_resumes_def Let_def)

lemma generate_recommendations_shape:
  "\<exists>rest. generate_recommendations rs =
      Some ((let r = (if count_action ''execute'' rs \<noteq> 0
                then real (count_action ''complete'' rs) / real (count_action ''execute'' rs)
                else 0)
             in if r < 0.70 then [LowSuccessRate]
                else if r \<ge> 0.85 then [HighSuccessRate] else []) @ rest)
      \<and> LowSuccessRate \<notin> set rest \<and> HighSuccessRate \<notin> set rest"
proof -
  obtain c where c: "number (get_or (get_summary rs) ''avg_cost_per_agent'' (Num 0)) = Some c"
    using avg_cost_number by blast
  obtain a where a: "number (get_or (analyze_resumes rs) ''avg_resumes_per_session'' (Num 0)) = Some a"
    using avg_resumes_number by blast
  show ?thesis
  proof (cases "length (analyze_agent_types rs) > 3")
    case True
    then have "analyze_agent_types rs \<noteq> []" by auto
    then obtain m where m: "max_by_count (analyze_agent_types rs) = Some m"
      using max_by_count_total [of "analyze_agent_types rs"] analyze_agent_types_count_of
      by blast
    show ?thesis using True
      by (simp add: generate_recommendations_def success_rate_item c a m Let_def)
  next
    case False
    then show ?thesis
      by (simp add: generate_recommendations_def success_rate_item c a Let_def)
  qed
qed

text \<open>
  Claim C8: \<^verbatim>\<open>generate_recommendations\<close> returns on every record sequence; the low-success-rate
  warning is in its result exactly when the success rate of the summary is below 0.70, the
  positive note exactly when it is at least 0.85; the two are never emitted together, and for a
  rate from 0.70 up to, not including, 0.85 neither is emitted.
\<close>

theorem success_rate_recommendations:
  "\<exists>recs r. generate_recommendations rs = Some recs
      \<and> map_of (get_summary rs) ''success_rate'' = Some (Num r)
      \<and> (LowSuccessRate \<in> set recs \<longleftrightarrow> r < 0.70)
      \<and> (HighSuccessRate \<in> set recs \<longleftrightarrow> r \<ge> 0.85)
      \<and> \<not> (LowSuccessRate \<in> set recs \<and> HighSuccessRate \<in> set recs)
      \<and> (0.70 \<le> r \<and> r < 0.85 \<longrightarrow> LowSuccessRate \<notin> set recs \<and> HighSuccessRate \<notin> set recs)"
proof -
  define r where "r = (if count_action ''execute'' rs \<noteq> 0
                then real (count_action ''complete'' rs) / real (count_action ''execute'' rs)
                else 0)"
  obtain rest where rest: "generate_recommendations rs =
      Some ((if r < 0.70 then [LowSuccessRate]
             else if r \<ge> 0.85 then [HighSuccessRate] else []) @ rest)"
    and nl: "LowSuccessRate \<notin> set rest" and nh: "HighSuccessRate \<notin> set rest"
    using generate_recommendations_shape [of rs] unfolding r_def Let_def by blast
  have sr: "map_of (get_summary rs) ''success_rate'' = Some (Num r)"
    using success_rate_item [of rs] by (simp add: getitem_def r_def)
  have "(LowSuccessRate \<in> set ((if r < 0.70 then [LowSuccessRate]
             else if r \<ge> 0.85 then [HighSuccessRate] else []) @ rest) \<longleftrightarrow> r < 0.70)"
    using nl by auto
  moreover have "(HighSuccessRate \<in> set ((if r < 0.70 then [LowSuccessRate]
             else if r \<ge> 0.85 then [HighSuccessRate] else []) @ rest) \<longleftrightarrow> r \<ge> 0.85)"
    using nh by auto
  ultimately show ?thesis
    using rest sr by (intro exI [of _ "(if r < 0.70 then [LowSuccessRate]
             else if r \<ge> 0.85 then [HighSuccessRate] else []) @ rest"] exI [of _ r]) auto
qed


text \<open>Four executions and three completions: the rate is 0.75 and neither message is emitted.\<close>

theorem success_rate_recommendations_witness:
  "\<exists>recs. generate_recommendations
      [\<lparr>action = Some ''execute'', session_id = None, agent_type = None, cost_usd = None\<rparr>,
       \<lparr>action = Some ''execute'', session_id = None, agent_type = None, cost_usd = None\<rparr>,
       \<lparr>action = Some ''execute'', session_id = None, agent_type = None, cost_usd = None\<rparr>,
       \<lparr>action = Some ''execute'', session_id = None, agent_type = None, cost_usd = None\<rparr>,
       \<lparr>action = Some ''complete'', session_id = None, agent_type = None, cost_usd = None\<rparr>,
       \<lparr>action = Some ''complete'', session_id = None, agent_type = None, cost_usd = None\<rparr>,
       \<lparr>action = Some ''complete'', session_id = None, agent_type = None, cost_usd = None\<rparr>] = Some recs
    \<and> map_of (get_summary
      [\<lparr>action = Some ''execute'', session_id = None, agent_type = None, cost_usd = None\<rparr>,
       \<lparr>action = Some ''execute'', session_id = None, agent_type = None, cost_usd = None\<rparr>,
       \<lparr>action = Some ''execute'', session_id = None, agent_type = None, cost_usd = None\<rparr>,
       \<lparr>action = Some ''execute'', session_id = None, agent_type = None, cost_usd = None\<rparr>,
       \<lparr>action = Some ''complete'', session_id = None, agent_type = None, cost_usd = None\<rparr>,
       \<lparr>action = Some ''complete'', session_id = None, agent_type = None, cost_usd = None\<rparr>,
       \<lparr>action = Some ''complete'', session_id = None, agent_type = None, cost_usd = None\<rparr>]) ''success_rate'' = Some (Num 0.75)
    \<and> (0.70 :: real) \<le> 0.75 \<and> (0.75 :: real) < 0.85
    \<and> LowSuccessRate \<notin> set recs \<and> HighSuccessRate \<notin> set recs"
  using success_rate_recommendations [of
     "[\<lparr>action = Some ''execute'', session_id = None, agent_type = None, cost_usd = None\<rparr>,
       \<lparr>action = Some ''execute'', session_id = None, agent_type = None, cost_usd = None\<rparr>,
       \<lparr>action = Some ''execute'', session_id = None, agent_type = None, cost_usd = None\<rparr>,
       \<lparr>action = Some ''execute'', session_id = None, agent_type = None, cost_usd = None\<rparr>,
       \<lparr>action = Some ''complete'', session_id = None, agent_type = None, cost_usd = None\<rparr>,
       \<lparr>action = Some ''complete'', session_id = None, agent_type = None, cost_usd = None\<rparr>,
       \<lparr>action = Some ''complete'', session_id = None, agent_type = None, cost_usd = None\<rparr>]"]
  by (auto simp: get_summary_def Let_def)

section \<open>The reports on no history\<close>

lemma generate_recommendations_total: "\<exists>recs. generate_recommendations rs = Some recs"
  using generate_recommendations_shape [of rs] by blast

text \<open>
  Claim C4 fails for analyze_experience.py: on a missing file its document has the status
  \<^verbatim>\<open>no_history\<close> and holds no summary, no agent types and no cost patterns.
\<close>

theorem no_history_report_lacks_summary:
  "report_field (fst (main None)) ''status'' = Some (Str ''no_history'')
   \<and> report_field (fst (main None)) ''summary'' = None
   \<and> report_field (fst (main None)) ''agent_types'' = None
   \<and> report_field (fst (main None)) ''cost_patterns'' = None"
  by (simp add: report_field_def main_def load_sessions_def analyze_all_def getitem_def)


text \<open>
  Claim C4, amended: a missing file is not an error, both loaders return the empty sequence.
  When the loader yields no records, basic_stats.py prints the fixed document with status,
  message, the seven summary fields at zero and empty \<^verbatim>\<open>agent_types\<close> and \<^verbatim>\<open>cost_patterns\<close>; its
  document for a non-empty history has the same keys except \<^verbatim>\<open>message\<close>, and the same seven
  summary fields. analyze_experience.py prints only status, message and \<^verbatim>\<open>total_sessions = 0\<close>,
  while its document for a non-empty history has nine keys.
\<close>

theorem no_history_reports:
  "load_sessions None = ([], []) \<and> bs_load_sessions None = ([], [])
   \<and> (fst (bs_load_sessions file) = [] \<longrightarrow>
        fst (bs_main file) =
          [(''status'', Str ''no_history''),
           (''message'', Str ''No session history found''),
           (''summary'', Dict
              [(''total_sessions'', Num 0),
               (''total_executions'', Num 0),
               (''completed'', Num 0),
               (''failed'', Num 0),
               (''success_rate'', Num 0),
               (''total_cost_usd'', Num 0),
               (''avg_cost_per_agent'', Num 0)]),
           (''agent_types'', Dict []),
           (''cost_patterns'', Dict [])])
   \<and> (fst (bs_load_sessions file) \<noteq> [] \<longrightarrow>
        map fst (fst (bs_main file)) = [''status'', ''summary'', ''agent_types'', ''cost_patterns'']
        \<and> (\<exists>d. map_of (fst (bs_main file)) ''summary'' = Some (Dict d)
             \<and> map fst d =
                 [''total_sessions'', ''total_executions'', ''completed'', ''failed'',
                  ''success_rate'', ''total_cost_usd'', ''avg_cost_per_agent'']))
   \<and> (fst (load_sessions file) = [] \<longrightarrow>
        fst (main file) =
          Some [(''status'', Str ''no_history''),
                (''message'', Str ''No session history found''),
                (''total_sessions'', Num 0)])
   \<and> (fst (load_sessions file) \<noteq> [] \<longrightarrow>
        (\<exists>doc. fst (main file) = Some doc
           \<and> map fst doc =
               [''status'', ''total_sessions'', ''summary'', ''agent_types'', ''cost_patterns'',
                ''success_metrics'', ''tool_patterns'', ''resume_patterns'',
                ''recommendations'']))"
proof (intro conjI impI)
  show "load_sessions None = ([], [])" by (simp add: load_sessions_def)
  show "bs_load_sessions None = ([], [])" by (simp add: bs_load_sessions_def)
next
  assume "fst (bs_load_sessions file) = []"
  then show "fst (bs_main file) =
          [(''status'', Str ''no_history''),
           (''message'', Str ''No session history found''),
           (''summary'', Dict
              [(''total_sessions'', Num 0),
               (''total_executions'', Num 0),
               (''completed'', Num 0),
               (''failed'', Num 0),
               (''success_rate'', Num 0),
               (''total_cost_usd'', Num 0),
               (''avg_cost_per_agent'', Num 0)]),
           (''agent_types'', Dict []),
           (''cost_patterns'', Dict [])]"
    by (cases "bs_load_sessions file") (simp add: bs_main_def)
next
  assume a: "fst (bs_load_sessions file) \<noteq> []"
  then show "map fst (fst (bs_main file)) = [''status'', ''summary'', ''agent_types'', ''cost_patterns'']"
    by (cases "bs_load_sessions file") (simp add: bs_main_def)
  from a show "\<exists>d. map_of (fst (bs_main file)) ''summary'' = Some (Dict d)
             \<and> map fst d =
                 [''total_sessions'', ''total_executions'', ''completed'', ''failed'',
                  ''success_rate'', ''total_cost_usd'', ''avg_cost_per_agent'']"
    by (cases "bs_load_sessions file") (simp add: bs_main_def bs_get_summary_def Let_def)
next
  assume "fst (load_sessions file) = []"
  then show "fst (main file) =
          Some [(''status'', Str ''no_history''),
                (''message'', Str ''No session history found''),
                (''total_sessions'', Num 0)]"
    by (cases "load_sessions file") (simp add: main_def analyze_all_def)
next
  assume a: "fst (load_sessions file) \<noteq> []"
  obtain sessions diags where l: "load_sessions file = (sessions, diags)"
    by (cases "load_sessions file")
  obtain recs where "generate_recommendations sessions = Some recs"
    using generate_recommendations_total by blast
  then show "\<exists>doc. fst (main file) = Some doc
           \<and> map fst doc =
               [''status'', ''total_sessions'', ''summary'', ''agent_types'', ''cost_patterns'',
                ''success_metrics'', ''tool_patterns'', ''resume_patterns'',
                ''recommendations'']"
    using a l by (simp add: main_def analyze_all_def)
qed

text \<open>A missing file, a file with one blank line, and a file with one record.\<close>

theorem no_history_reports_witness:
  "fst (bs_load_sessions None) = []
   \<and> fst (bs_main None) =
          [(''status'', Str ''no_history''),
           (''message'', Str ''No session history found''),
           (''summary'', Dict
              [(''total_sessions'', Num 0),
               (''total_executions'', Num 0),
               (''completed'', Num 0),
               (''failed'', Num 0),
               (''success_rate'', Num 0),
               (''total_cost_usd'', Num 0),
               (''avg_cost_per_agent'', Num 0)]),
           (''agent_types'', Dict []),
           (''cost_patterns'', Dict [])]
   \<and> fst (load_sessions (Some [Blank])) = []
   \<and> fst (main (Some [Blank])) =
          Some [(''status'', Str ''no_history''),
                (''message'', Str ''No session history found''),
                (''total_sessions'', Num 0)]
   \<and> fst (bs_load_sessions (Some [Entry \<lparr>action = Some ''execute'', session_id = None, agent_type = None, cost_usd = None\<rparr>])) \<noteq> []
   \<and> map fst (fst (bs_main (Some [Entry \<lparr>action = Some ''execute'', session_id = None, agent_type = None, cost_usd = None\<rparr>])))
       = [''status'', ''summary'', ''agent_types'', ''cost_patterns'']
   \<and> fst (load_sessions (Some [Entry \<lparr>action = Some ''execute'', session_id = None, agent_type = None, cost_usd = None\<rparr>])) \<noteq> []
   \<and> (\<exists>doc. fst (main (Some [Entry \<lparr>action = Some ''execute'', session_id = None, agent_type = None, cost_usd = None\<rparr>])) = Some doc
        \<and> map fst doc =
               [''status'', ''total_sessions'', ''summary'', ''agent_types'', ''cost_patterns'',
                ''success_metrics'', ''tool_patterns'', ''resume_patterns'',
                ''recommendations''])"
  using no_history_reports [of None] no_history_reports [of "Some [Blank]"]
    no_history_reports [of "Some [Entry \<lparr>action = Some ''execute'', session_id = None, agent_type = None, cost_usd = None\<rparr>]"]
  by (simp add: load_sessions_def bs_load_sessions_def)

end
